theory Spec2Isabelle
  imports Complex_Main
begin

section \<open>JavaScript numbers\<close>

text \<open>
  A JavaScript \<open>number\<close> is an IEEE 754 binary64 value. \<open>Num m u\<close> is the finite value
  \<open>m * 2\<^sup>u\<close>, and \<open>Num 0 0\<close> the positive zero; the negative zero, the two infinities and
  NaN are values of their own. The arithmetic below returns a finite result in the layout
  of binary64: \<open>2\<^sup>5\<^sup>2 \<le> |m| < 2\<^sup>5\<^sup>3\<close> and \<open>-1074 \<le> u \<le> 971\<close> for a normal number,
  \<open>|m| < 2\<^sup>5\<^sup>2\<close> and \<open>u = -1074\<close> for a subnormal one. Results are rounded to the nearest
  value, ties to the even significand, which is the only rounding of JavaScript.
  Equality of two values of this type is identity: unlike \<open>===\<close> it holds between NaN and
  NaN and not between the two zeros.
\<close>

datatype js_number = Num int int | NegZero | PosInf | NegInf | NaN

text \<open>The number of binary digits of a positive integer.\<close>

function bit_length :: "int \<Rightarrow> int" where
  "bit_length n = (if n \<le> 0 then 0 else 1 + bit_length (n div 2))"
  by pat_completeness auto
termination
  by (relation "measure nat") auto

declare bit_length.simps [simp del]

text \<open>
  The rounding of a positive ratio \<open>a / b\<close>, with \<open>a\<close> and \<open>b\<close> positive: \<open>e\<close> is the
  binary exponent of the ratio, \<open>u\<close> the exponent of the last place of its significand
  (not below that of the subnormal numbers), \<open>m\<close> the ratio in units of \<open>2\<^sup>u\<close> rounded to
  an integer. A significand that rounds up to \<open>2\<^sup>5\<^sup>3\<close> moves to the next exponent; a result
  beyond the largest finite number is \<open>None\<close>.
\<close>

definition round_pos :: "int \<Rightarrow> int \<Rightarrow> (int \<times> int) option" where
  "round_pos a b =
     (let e0 = bit_length a - bit_length b;
          e = (if (if 0 \<le> e0 then b * 2 ^ nat e0 \<le> a else b \<le> a * 2 ^ nat (- e0))
               then e0 else e0 - 1);
          u = max e (- 1022) - 52;
          n = (if u \<le> 0 then a * 2 ^ nat (- u) else a);
          d = (if u \<le> 0 then b else b * 2 ^ nat u);
          f = n div d;
          r = n mod d;
          m = (if 2 * r < d then f else if d < 2 * r then f + 1
               else if even f then f else f + 1)
      in if m = 2 ^ 53 then (if 971 < u + 1 then None else Some (2 ^ 52, u + 1))
         else (if 971 < u then None else Some (m, u)))"

text \<open>The double nearest to the ratio \<open>a / b\<close>, for a positive \<open>b\<close>: a result too large is
  an infinity, and a result that rounds to zero keeps the sign of the ratio.\<close>

definition round_double :: "int \<Rightarrow> int \<Rightarrow> js_number" where
  "round_double a b =
     (if a = 0 then Num 0 0
      else if 0 < a
      then (case round_pos a b of None \<Rightarrow> PosInf
            | Some (m, u) \<Rightarrow> if m = 0 then Num 0 0 else Num m u)
      else (case round_pos (- a) b of None \<Rightarrow> NegInf
            | Some (m, u) \<Rightarrow> if m = 0 then NegZero else Num (- m) u))"

text \<open>The double nearest to \<open>n * 2\<^sup>k\<close>.\<close>

definition round_scaled :: "int \<Rightarrow> int \<Rightarrow> js_number" where
  "round_scaled n k =
     (if 0 \<le> k then round_double (n * 2 ^ nat k) 1 else round_double n (2 ^ nat (- k)))"

text \<open>A decimal literal of the source, such as \<open>29.99\<close> for \<open>js_literal 2999 100\<close>, and an
  integer literal or an integer that the library returns.\<close>

definition js_literal :: "int \<Rightarrow> int \<Rightarrow> js_number" where
  "js_literal a b = round_double a b"

definition js_of_int :: "int \<Rightarrow> js_number" where
  "js_of_int i = round_double i 1"

fun is_zero :: "js_number \<Rightarrow> bool" where
  "is_zero (Num m u) = (m = 0)"
| "is_zero NegZero = True"
| "is_zero _ = False"

fun is_negative :: "js_number \<Rightarrow> bool" where
  "is_negative (Num m u) = (m < 0)"
| "is_negative NegZero = True"
| "is_negative NegInf = True"
| "is_negative _ = False"

fun is_infinite :: "js_number \<Rightarrow> bool" where
  "is_infinite PosInf = True"
| "is_infinite NegInf = True"
| "is_infinite _ = False"

fun is_finite :: "js_number \<Rightarrow> bool" where
  "is_finite (Num m u) = True"
| "is_finite NegZero = True"
| "is_finite _ = False"

definition signed_zero :: "bool \<Rightarrow> js_number" where
  "signed_zero negative = (if negative then NegZero else Num 0 0)"

definition signed_infinity :: "bool \<Rightarrow> js_number" where
  "signed_infinity negative = (if negative then NegInf else PosInf)"

text \<open>\<open>x * y\<close>: the rounded product of two finite non-zero numbers; otherwise NaN for a NaN
  operand and for an infinity times a zero, an infinity for any other product with an
  infinity, and else a zero; the sign of a zero or of an infinity is that of the product.\<close>

fun js_mul :: "js_number \<Rightarrow> js_number \<Rightarrow> js_number" where
  "js_mul (Num m1 u1) (Num m2 u2) =
     (if m1 = 0 \<or> m2 = 0 then signed_zero ((m1 < 0) \<noteq> (m2 < 0))
      else round_scaled (m1 * m2) (u1 + u2))"
| "js_mul x y =
     (if x = NaN \<or> y = NaN then NaN
      else if is_infinite x \<or> is_infinite y
      then (if is_zero x \<or> is_zero y then NaN
            else signed_infinity (is_negative x \<noteq> is_negative y))
      else signed_zero (is_negative x \<noteq> is_negative y))"

text \<open>\<open>x + y\<close>: the rounded sum of two finite numbers, an exact sum of zero being the
  positive zero; otherwise NaN for a NaN operand and for the sum of the two infinities, an
  infinity operand for any other sum with one, and else the other operand of a negative
  zero.\<close>

fun js_add :: "js_number \<Rightarrow> js_number \<Rightarrow> js_number" where
  "js_add (Num m1 u1) (Num m2 u2) =
     (let u = min u1 u2
      in round_scaled (m1 * 2 ^ nat (u1 - u) + m2 * 2 ^ nat (u2 - u)) u)"
| "js_add x y =
     (if x = NaN \<or> y = NaN then NaN
      else if is_infinite x then (if is_infinite y \<and> x \<noteq> y then NaN else x)
      else if is_infinite y then y
      else if x = NegZero then y else x)"

text \<open>The rational number that a finite value stands for.\<close>

definition pow2 :: "int \<Rightarrow> rat" where
  "pow2 e = (if 0 \<le> e then 2 ^ nat e else 1 / 2 ^ nat (- e))"

fun num_value :: "js_number \<Rightarrow> rat" where
  "num_value (Num m u) = of_int m * pow2 u"
| "num_value _ = 0"

section \<open>Data model\<close>

text \<open>
  The entities are the TypeScript interfaces of the builders: a \<open>number\<close> field is a
  \<^typ>\<open>js_number\<close>, a string a \<^typ>\<open>string\<close>, an optional field \<open>f?: T\<close> an \<open>option\<close>.
\<close>

record user =
  firstName :: string
  lastName :: string
  email :: string
  password :: string
  phone :: "string option"

record address =
  street :: string
  city :: string
  state :: string
  zipCode :: string
  country :: string

record product =
  name :: string
  description :: string
  price :: js_number
  sku :: string
  category :: string
  inStock :: bool
  quantity :: "js_number option"

record order_item =
  item_product :: product
  item_quantity :: js_number
  item_price :: js_number

datatype order_status = Pending | Processing | Shipped | Delivered | Cancelled

record order =
  orderNumber :: string
  order_user :: user
  items :: "order_item list"
  shippingAddress :: address
  billingAddress :: "address option"
  total :: js_number
  status :: order_status
  paymentMethod :: string

text \<open>
  \<open>Partial<T>\<close>: every field of \<open>T\<close> optional. It is the private state of a builder
  (\<open>private user: Partial<User> = {}\<close>) and the type of a factory's \<open>overrides\<close>.
\<close>

record user_partial =
  opt_firstName :: "string option"
  opt_lastName :: "string option"
  opt_email :: "string option"
  opt_password :: "string option"
  opt_phone :: "string option"

record address_partial =
  opt_street :: "string option"
  opt_city :: "string option"
  opt_state :: "string option"
  opt_zipCode :: "string option"
  opt_country :: "string option"

record product_partial =
  opt_name :: "string option"
  opt_description :: "string option"
  opt_price :: "js_number option"
  opt_sku :: "string option"
  opt_category :: "string option"
  opt_inStock :: "bool option"
  opt_quantity :: "js_number option"

record order_partial =
  opt_orderNumber :: "string option"
  opt_user :: "user option"
  opt_items :: "order_item list option"
  opt_shippingAddress :: "address option"
  opt_billingAddress :: "address option"
  opt_total :: "js_number option"
  opt_status :: "order_status option"
  opt_paymentMethod :: "string option"

section \<open>The random provider\<close>

text \<open>
  The generator is the third-party library \<open>@faker-js/faker\<close>, one process-wide instance.
  Its state is passed explicitly: a generation call takes the state \<open>'g\<close> and returns the
  value and the next state. The library's functions that the builders call are the fields
  of the record below, so every definition of this theory is parametric in them;
  \<open>parseFloat\<close> is the JavaScript built-in that the builders apply to
  \<open>faker.commerce.price\<close>, which returns a string.
\<close>

record 'g faker =
  seed :: "js_number \<Rightarrow> 'g"
  person_firstName :: "'g \<Rightarrow> string \<times> 'g"
  person_lastName :: "'g \<Rightarrow> string \<times> 'g"
  internet_email :: "'g \<Rightarrow> string \<times> 'g"
  internet_password :: "nat option \<Rightarrow> 'g \<Rightarrow> string \<times> 'g"
  location_streetAddress :: "'g \<Rightarrow> string \<times> 'g"
  location_city :: "'g \<Rightarrow> string \<times> 'g"
  location_state :: "bool \<Rightarrow> 'g \<Rightarrow> string \<times> 'g"
  location_zipCode :: "'g \<Rightarrow> string \<times> 'g"
  location_country :: "'g \<Rightarrow> string \<times> 'g"
  commerce_productName :: "'g \<Rightarrow> string \<times> 'g"
  commerce_productDescription :: "'g \<Rightarrow> string \<times> 'g"
  commerce_price :: "js_number \<Rightarrow> js_number \<Rightarrow> 'g \<Rightarrow> string \<times> 'g"
  commerce_department :: "'g \<Rightarrow> string \<times> 'g"
  string_alphanumeric :: "nat \<Rightarrow> 'g \<Rightarrow> string \<times> 'g"
  datatype_boolean :: "'g \<Rightarrow> bool \<times> 'g"
  number_int :: "int \<Rightarrow> int \<Rightarrow> 'g \<Rightarrow> int \<times> 'g"
  parseFloat :: "string \<Rightarrow> js_number"

text \<open>\<open>setSeed(seed)\<close> is \<open>faker.seed(seed)\<close>: the state it leaves depends on the seed alone.\<close>

definition setSeed :: "'g faker \<Rightarrow> js_number \<Rightarrow> 'g \<Rightarrow> 'g" where
  "setSeed fk s g = seed fk s"

text \<open>\<open>resetSeed()\<close> is \<open>faker.seed()\<close>; the value the library takes from the clock is the
  argument \<open>now\<close>.\<close>

definition resetSeed :: "'g faker \<Rightarrow> js_number \<Rightarrow> 'g \<Rightarrow> 'g" where
  "resetSeed fk now g = seed fk now"

definition randomEmail :: "'g faker \<Rightarrow> 'g \<Rightarrow> string \<times> 'g" where
  "randomEmail fk g = internet_email fk g"

text \<open>
  \<open>a ?? e\<close>: the right operand is evaluated, and the generator advanced, only when the
  left one is undefined.
\<close>

fun nullish :: "'a option \<Rightarrow> ('g \<Rightarrow> 'a \<times> 'g) \<Rightarrow> 'g \<Rightarrow> 'a \<times> 'g" where
  "nullish (Some v) gen g = (v, g)"
| "nullish None gen g = gen g"

text \<open>\<open>a ?? c\<close> with a constant right operand.\<close>

fun or_default :: "'a option \<Rightarrow> 'a \<Rightarrow> 'a" where
  "or_default (Some v) d = v"
| "or_default None d = d"

text \<open>\<open>String.prototype.toUpperCase\<close> on the ASCII letters, which is all that
  \<open>faker.string.alphanumeric\<close> produces; other characters are kept.\<close>

definition upper_char :: "char \<Rightarrow> char" where
  "upper_char c =
     (let n = (of_char c :: nat) in if 97 \<le> n \<and> n \<le> 122 then char_of (n - 32) else c)"

definition toUpperCase :: "string \<Rightarrow> string" where
  "toUpperCase s = map upper_char s"

section \<open>UserBuilder\<close>

definition new_UserBuilder :: user_partial where
  "new_UserBuilder =
     \<lparr>opt_firstName = None, opt_lastName = None, opt_email = None, opt_password = None,
      opt_phone = None\<rparr>"

definition UserBuilder_withEmail :: "string \<Rightarrow> user_partial \<Rightarrow> user_partial" where
  "UserBuilder_withEmail v b = b\<lparr>opt_email := Some v\<rparr>"

definition UserBuilder_withPassword :: "string \<Rightarrow> user_partial \<Rightarrow> user_partial" where
  "UserBuilder_withPassword v b = b\<lparr>opt_password := Some v\<rparr>"

definition UserBuilder_withFirstName :: "string \<Rightarrow> user_partial \<Rightarrow> user_partial" where
  "UserBuilder_withFirstName v b = b\<lparr>opt_firstName := Some v\<rparr>"

definition UserBuilder_withLastName :: "string \<Rightarrow> user_partial \<Rightarrow> user_partial" where
  "UserBuilder_withLastName v b = b\<lparr>opt_lastName := Some v\<rparr>"

definition UserBuilder_withPhone :: "string \<Rightarrow> user_partial \<Rightarrow> user_partial" where
  "UserBuilder_withPhone v b = b\<lparr>opt_phone := Some v\<rparr>"

definition UserBuilder_build :: "'g faker \<Rightarrow> user_partial \<Rightarrow> 'g \<Rightarrow> user \<times> 'g" where
  "UserBuilder_build fk b g =
     (let (fn, g1) = nullish (opt_firstName b) (person_firstName fk) g;
          (ln, g2) = nullish (opt_lastName b) (person_lastName fk) g1;
          (em, g3) = nullish (opt_email b) (internet_email fk) g2;
          (pw, g4) = nullish (opt_password b) (internet_password fk (Some 12)) g3
      in (\<lparr>firstName = fn, lastName = ln, email = em, password = pw, phone = opt_phone b\<rparr>,
          g4))"

section \<open>AddressBuilder\<close>

definition new_AddressBuilder :: address_partial where
  "new_AddressBuilder =
     \<lparr>opt_street = None, opt_city = None, opt_state = None, opt_zipCode = None,
      opt_country = None\<rparr>"

definition AddressBuilder_withStreet :: "string \<Rightarrow> address_partial \<Rightarrow> address_partial" where
  "AddressBuilder_withStreet v b = b\<lparr>opt_street := Some v\<rparr>"

definition AddressBuilder_withCity :: "string \<Rightarrow> address_partial \<Rightarrow> address_partial" where
  "AddressBuilder_withCity v b = b\<lparr>opt_city := Some v\<rparr>"

definition AddressBuilder_withState :: "string \<Rightarrow> address_partial \<Rightarrow> address_partial" where
  "AddressBuilder_withState v b = b\<lparr>opt_state := Some v\<rparr>"

definition AddressBuilder_withZipCode :: "string \<Rightarrow> address_partial \<Rightarrow> address_partial" where
  "AddressBuilder_withZipCode v b = b\<lparr>opt_zipCode := Some v\<rparr>"

definition AddressBuilder_withCountry :: "string \<Rightarrow> address_partial \<Rightarrow> address_partial" where
  "AddressBuilder_withCountry v b = b\<lparr>opt_country := Some v\<rparr>"

definition AddressBuilder_buildUS :: "'g faker \<Rightarrow> address_partial \<Rightarrow> 'g \<Rightarrow> address \<times> 'g" where
  "AddressBuilder_buildUS fk b g =
     (let (st, g1) = nullish (opt_street b) (location_streetAddress fk) g;
          (ci, g2) = nullish (opt_city b) (location_city fk) g1;
          (sa, g3) = nullish (opt_state b) (location_state fk True) g2;
          (zi, g4) = nullish (opt_zipCode b) (location_zipCode fk) g3
      in (\<lparr>street = st, city = ci, state = sa, zipCode = zi,
           country = or_default (opt_country b) ''United States''\<rparr>, g4))"

definition AddressBuilder_build :: "'g faker \<Rightarrow> address_partial \<Rightarrow> 'g \<Rightarrow> address \<times> 'g" where
  "AddressBuilder_build fk b g =
     (let (st, g1) = nullish (opt_street b) (location_streetAddress fk) g;
          (ci, g2) = nullish (opt_city b) (location_city fk) g1;
          (sa, g3) = nullish (opt_state b) (location_state fk False) g2;
          (zi, g4) = nullish (opt_zipCode b) (location_zipCode fk) g3;
          (co, g5) = nullish (opt_country b) (location_country fk) g4
      in (\<lparr>street = st, city = ci, state = sa, zipCode = zi, country = co\<rparr>, g5))"

definition AddressBuilder_reset :: "address_partial \<Rightarrow> address_partial" where
  "AddressBuilder_reset b = new_AddressBuilder"

section \<open>ProductBuilder\<close>

definition new_ProductBuilder :: product_partial where
  "new_ProductBuilder =
     \<lparr>opt_name = None, opt_description = None, opt_price = None, opt_sku = None,
      opt_category = None, opt_inStock = None, opt_quantity = None\<rparr>"

definition ProductBuilder_withName :: "string \<Rightarrow> product_partial \<Rightarrow> product_partial" where
  "ProductBuilder_withName v b = b\<lparr>opt_name := Some v\<rparr>"

definition ProductBuilder_withDescription :: "string \<Rightarrow> product_partial \<Rightarrow> product_partial" where
  "ProductBuilder_withDescription v b = b\<lparr>opt_description := Some v\<rparr>"

definition ProductBuilder_withPrice :: "js_number \<Rightarrow> product_partial \<Rightarrow> product_partial" where
  "ProductBuilder_withPrice v b = b\<lparr>opt_price := Some v\<rparr>"

definition ProductBuilder_withSku :: "string \<Rightarrow> product_partial \<Rightarrow> product_partial" where
  "ProductBuilder_withSku v b = b\<lparr>opt_sku := Some v\<rparr>"

definition ProductBuilder_withCategory :: "string \<Rightarrow> product_partial \<Rightarrow> product_partial" where
  "ProductBuilder_withCategory v b = b\<lparr>opt_category := Some v\<rparr>"

definition ProductBuilder_withStockStatus :: "bool \<Rightarrow> product_partial \<Rightarrow> product_partial" where
  "ProductBuilder_withStockStatus v b = b\<lparr>opt_inStock := Some v\<rparr>"

definition ProductBuilder_withQuantity :: "js_number \<Rightarrow> product_partial \<Rightarrow> product_partial" where
  "ProductBuilder_withQuantity v b = b\<lparr>opt_quantity := Some v\<rparr>"

text \<open>\<open>parseFloat(faker.commerce.price({ min, max }))\<close>\<close>

definition price_draw :: "'g faker \<Rightarrow> js_number \<Rightarrow> js_number \<Rightarrow> 'g \<Rightarrow> js_number \<times> 'g" where
  "price_draw fk lo hi g = (let (s, g') = commerce_price fk lo hi g in (parseFloat fk s, g'))"

text \<open>\<open>faker.string.alphanumeric(n).toUpperCase()\<close>\<close>

definition upper_alphanumeric :: "'g faker \<Rightarrow> nat \<Rightarrow> 'g \<Rightarrow> string \<times> 'g" where
  "upper_alphanumeric fk n g = (let (s, g') = string_alphanumeric fk n g in (toUpperCase s, g'))"

definition ProductBuilder_build :: "'g faker \<Rightarrow> product_partial \<Rightarrow> 'g \<Rightarrow> product \<times> 'g" where
  "ProductBuilder_build fk b g =
     (let (na, g1) = nullish (opt_name b) (commerce_productName fk) g;
          (de, g2) = nullish (opt_description b) (commerce_productDescription fk) g1;
          (pr, g3) = nullish (opt_price b) (price_draw fk (js_of_int 10) (js_of_int 1000)) g2;
          (sk, g4) = nullish (opt_sku b) (upper_alphanumeric fk 10) g3;
          (ca, g5) = nullish (opt_category b) (commerce_department fk) g4;
          (ins, g6) = nullish (opt_inStock b) (datatype_boolean fk) g5
      in (\<lparr>name = na, description = de, price = pr, sku = sk, category = ca, inStock = ins,
           quantity = opt_quantity b\<rparr>, g6))"

text \<open>
  \<open>buildInStock\<close> and \<open>buildOutOfStock\<close> call \<open>withStockStatus\<close> on \<open>this\<close> before
  \<open>build()\<close>, so they return the product, the builder as they leave it, and the generator.
\<close>

definition ProductBuilder_buildInStock ::
  "'g faker \<Rightarrow> product_partial \<Rightarrow> 'g \<Rightarrow> product \<times> product_partial \<times> 'g" where
  "ProductBuilder_buildInStock fk b g =
     (let b' = ProductBuilder_withStockStatus True b;
          (p, g') = ProductBuilder_build fk b' g
      in (p, b', g'))"

definition ProductBuilder_buildOutOfStock ::
  "'g faker \<Rightarrow> product_partial \<Rightarrow> 'g \<Rightarrow> product \<times> product_partial \<times> 'g" where
  "ProductBuilder_buildOutOfStock fk b g =
     (let b' = ProductBuilder_withStockStatus False b;
          (p, g') = ProductBuilder_build fk b' g
      in (p, b', g'))"

definition ProductBuilder_reset :: "product_partial \<Rightarrow> product_partial" where
  "ProductBuilder_reset b = new_ProductBuilder"

section \<open>OrderBuilder\<close>

definition new_OrderBuilder :: order_partial where
  "new_OrderBuilder =
     \<lparr>opt_orderNumber = None, opt_user = None, opt_items = None, opt_shippingAddress = None,
      opt_billingAddress = None, opt_total = None, opt_status = None,
      opt_paymentMethod = None\<rparr>"

definition OrderBuilder_withOrderNumber :: "string \<Rightarrow> order_partial \<Rightarrow> order_partial" where
  "OrderBuilder_withOrderNumber v b = b\<lparr>opt_orderNumber := Some v\<rparr>"

definition OrderBuilder_withUser :: "user \<Rightarrow> order_partial \<Rightarrow> order_partial" where
  "OrderBuilder_withUser v b = b\<lparr>opt_user := Some v\<rparr>"

definition OrderBuilder_withItems :: "order_item list \<Rightarrow> order_partial \<Rightarrow> order_partial" where
  "OrderBuilder_withItems v b = b\<lparr>opt_items := Some v\<rparr>"

definition OrderBuilder_withShippingAddress :: "address \<Rightarrow> order_partial \<Rightarrow> order_partial" where
  "OrderBuilder_withShippingAddress v b = b\<lparr>opt_shippingAddress := Some v\<rparr>"

definition OrderBuilder_withBillingAddress :: "address \<Rightarrow> order_partial \<Rightarrow> order_partial" where
  "OrderBuilder_withBillingAddress v b = b\<lparr>opt_billingAddress := Some v\<rparr>"

definition OrderBuilder_withStatus :: "order_status \<Rightarrow> order_partial \<Rightarrow> order_partial" where
  "OrderBuilder_withStatus v b = b\<lparr>opt_status := Some v\<rparr>"

definition OrderBuilder_withPaymentMethod :: "string \<Rightarrow> order_partial \<Rightarrow> order_partial" where
  "OrderBuilder_withPaymentMethod v b = b\<lparr>opt_paymentMethod := Some v\<rparr>"

text \<open>The array literal of \<open>build()\<close>, evaluated when \<open>this.order.items\<close> is undefined:
  one item around a product written out field by field.\<close>

definition default_items :: "'g faker \<Rightarrow> 'g \<Rightarrow> order_item list \<times> 'g" where
  "default_items fk g =
     (let (na, g1) = commerce_productName fk g;
          (de, g2) = commerce_productDescription fk g1;
          (pr, g3) = price_draw fk (js_of_int 10) (js_of_int 100) g2;
          (sk, g4) = upper_alphanumeric fk 10 g3;
          (ca, g5) = commerce_department fk g4;
          (qt, g6) = number_int fk 1 5 g5;
          (ip, g7) = price_draw fk (js_of_int 10) (js_of_int 100) g6
      in ([\<lparr>item_product =
              \<lparr>name = na, description = de, price = pr, sku = sk, category = ca,
               inStock = True, quantity = None\<rparr>,
            item_quantity = js_of_int qt, item_price = ip\<rparr>], g7))"

text \<open>\<open>items.reduce((sum, item) => sum + item.price * item.quantity, 0)\<close>\<close>

definition subtotal :: "order_item list \<Rightarrow> js_number" where
  "subtotal its =
     foldl (\<lambda>sum item. js_add sum (js_mul (item_price item) (item_quantity item))) (Num 0 0) its"

text \<open>The template literal \<open>ORD-${faker.string.alphanumeric(8).toUpperCase()}\<close>\<close>

definition default_orderNumber :: "'g faker \<Rightarrow> 'g \<Rightarrow> string \<times> 'g" where
  "default_orderNumber fk g = (let (s, g') = upper_alphanumeric fk 8 g in (''ORD-'' @ s, g'))"

definition default_user :: "'g faker \<Rightarrow> 'g \<Rightarrow> user \<times> 'g" where
  "default_user fk g =
     (let (fn, g1) = person_firstName fk g;
          (ln, g2) = person_lastName fk g1;
          (em, g3) = internet_email fk g2;
          (pw, g4) = internet_password fk None g3
      in (\<lparr>firstName = fn, lastName = ln, email = em, password = pw, phone = None\<rparr>, g4))"

definition default_shippingAddress :: "'g faker \<Rightarrow> 'g \<Rightarrow> address \<times> 'g" where
  "default_shippingAddress fk g =
     (let (st, g1) = location_streetAddress fk g;
          (ci, g2) = location_city fk g1;
          (sa, g3) = location_state fk True g2;
          (zi, g4) = location_zipCode fk g3
      in (\<lparr>street = st, city = ci, state = sa, zipCode = zi, country = ''United States''\<rparr>,
          g4))"

definition OrderBuilder_build :: "'g faker \<Rightarrow> order_partial \<Rightarrow> 'g \<Rightarrow> order \<times> 'g" where
  "OrderBuilder_build fk b g =
     (let (its, g1) = nullish (opt_items b) (default_items fk) g;
          sub = subtotal its;
          (onr, g2) = nullish (opt_orderNumber b) (default_orderNumber fk) g1;
          (us, g3) = nullish (opt_user b) (default_user fk) g2;
          (sh, g4) = nullish (opt_shippingAddress b) (default_shippingAddress fk) g3
      in (\<lparr>orderNumber = onr, order_user = us, items = its, shippingAddress = sh,
           billingAddress = opt_billingAddress b, total = sub,
           status = or_default (opt_status b) Pending,
           paymentMethod = or_default (opt_paymentMethod b) ''Credit Card''\<rparr>, g4))"

definition simple_items :: "order_item list" where
  "simple_items =
     [\<lparr>item_product =
         \<lparr>name = ''Test Product'', description = ''A test product'', price = js_literal 2999 100,
          sku = ''TEST-001'', category = ''Test'', inStock = True, quantity = None\<rparr>,
       item_quantity = js_of_int 1, item_price = js_literal 2999 100\<rparr>]"

text \<open>\<open>buildSimple\<close> calls \<open>withItems\<close> on \<open>this\<close> before \<open>build()\<close>: it returns the order,
  the builder as it leaves it, and the generator.\<close>

definition OrderBuilder_buildSimple ::
  "'g faker \<Rightarrow> order_partial \<Rightarrow> 'g \<Rightarrow> order \<times> order_partial \<times> 'g" where
  "OrderBuilder_buildSimple fk b g =
     (let b' = OrderBuilder_withItems simple_items b;
          (ord, g') = OrderBuilder_build fk b' g
      in (ord, b', g'))"

definition OrderBuilder_reset :: "order_partial \<Rightarrow> order_partial" where
  "OrderBuilder_reset b = new_OrderBuilder"

section \<open>TestDataFactory\<close>

text \<open>
  \<open>overrides?.f\<close> is undefined when \<open>overrides\<close> is. A condition \<open>if (v) ...\<close> tests the
  truthiness of \<open>v\<close>: a string is truthy unless empty, a number unless it is a zero or NaN, an object or an
  array always; \<open>v !== undefined\<close> tests presence.
\<close>

definition chain :: "'p option \<Rightarrow> ('p \<Rightarrow> 'a option) \<Rightarrow> 'a option" where
  "chain overrides f = (case overrides of None \<Rightarrow> None | Some p \<Rightarrow> f p)"

definition truthy_string :: "string \<Rightarrow> bool" where
  "truthy_string s = (s \<noteq> [])"

definition truthy_number :: "js_number \<Rightarrow> bool" where
  "truthy_number n = (\<not> is_zero n \<and> n \<noteq> NaN)"

definition truthy_object :: "'a \<Rightarrow> bool" where
  "truthy_object x = True"

definition if_truthy :: "('a \<Rightarrow> bool) \<Rightarrow> 'a option \<Rightarrow> ('a \<Rightarrow> 'b \<Rightarrow> 'b) \<Rightarrow> 'b \<Rightarrow> 'b" where
  "if_truthy t v f b = (case v of None \<Rightarrow> b | Some x \<Rightarrow> if t x then f x b else b)"

definition if_defined :: "'a option \<Rightarrow> ('a \<Rightarrow> 'b \<Rightarrow> 'b) \<Rightarrow> 'b \<Rightarrow> 'b" where
  "if_defined v f b = (case v of None \<Rightarrow> b | Some x \<Rightarrow> f x b)"

definition createUser :: "'g faker \<Rightarrow> user_partial option \<Rightarrow> 'g \<Rightarrow> user \<times> 'g" where
  "createUser fk overrides g =
     (let builder = new_UserBuilder;
          builder = if_truthy truthy_string (chain overrides opt_email) UserBuilder_withEmail builder;
          builder = if_truthy truthy_string (chain overrides opt_password) UserBuilder_withPassword builder;
          builder = if_truthy truthy_string (chain overrides opt_firstName) UserBuilder_withFirstName builder;
          builder = if_truthy truthy_string (chain overrides opt_lastName) UserBuilder_withLastName builder;
          builder = if_truthy truthy_string (chain overrides opt_phone) UserBuilder_withPhone builder
      in UserBuilder_build fk builder g)"

definition createAdminUser :: "'g faker \<Rightarrow> 'g \<Rightarrow> user \<times> 'g" where
  "createAdminUser fk g =
     UserBuilder_build fk
       (UserBuilder_withLastName ''User''
         (UserBuilder_withFirstName ''Admin''
           (UserBuilder_withPassword ''AdminPass123!''
             (UserBuilder_withEmail ''admin@example.com'' new_UserBuilder)))) g"

definition createAddress :: "'g faker \<Rightarrow> address_partial option \<Rightarrow> 'g \<Rightarrow> address \<times> 'g" where
  "createAddress fk overrides g =
     (let builder = new_AddressBuilder;
          builder = if_truthy truthy_string (chain overrides opt_street) AddressBuilder_withStreet builder;
          builder = if_truthy truthy_string (chain overrides opt_city) AddressBuilder_withCity builder;
          builder = if_truthy truthy_string (chain overrides opt_state) AddressBuilder_withState builder;
          builder = if_truthy truthy_string (chain overrides opt_zipCode) AddressBuilder_withZipCode builder;
          builder = if_truthy truthy_string (chain overrides opt_country) AddressBuilder_withCountry builder
      in AddressBuilder_build fk builder g)"

definition createUSAddress :: "'g faker \<Rightarrow> 'g \<Rightarrow> address \<times> 'g" where
  "createUSAddress fk g = AddressBuilder_buildUS fk new_AddressBuilder g"

definition createProduct :: "'g faker \<Rightarrow> product_partial option \<Rightarrow> 'g \<Rightarrow> product \<times> 'g" where
  "createProduct fk overrides g =
     (let builder = new_ProductBuilder;
          builder = if_truthy truthy_string (chain overrides opt_name) ProductBuilder_withName builder;
          builder = if_truthy truthy_number (chain overrides opt_price) ProductBuilder_withPrice builder;
          builder = if_truthy truthy_string (chain overrides opt_category) ProductBuilder_withCategory builder;
          builder = if_defined (chain overrides opt_inStock) ProductBuilder_withStockStatus builder
      in ProductBuilder_build fk builder g)"

definition createInStockProduct :: "'g faker \<Rightarrow> 'g \<Rightarrow> product \<times> 'g" where
  "createInStockProduct fk g =
     (let (p, b, g') = ProductBuilder_buildInStock fk new_ProductBuilder g in (p, g'))"

definition createOutOfStockProduct :: "'g faker \<Rightarrow> 'g \<Rightarrow> product \<times> 'g" where
  "createOutOfStockProduct fk g =
     (let (p, b, g') = ProductBuilder_buildOutOfStock fk new_ProductBuilder g in (p, g'))"

text \<open>Every value of the type of \<open>status\<close> is a non-empty string literal, hence truthy.\<close>

definition createOrder :: "'g faker \<Rightarrow> order_partial option \<Rightarrow> 'g \<Rightarrow> order \<times> 'g" where
  "createOrder fk overrides g =
     (let builder = new_OrderBuilder;
          builder = if_truthy truthy_object (chain overrides opt_user) OrderBuilder_withUser builder;
          builder = if_truthy truthy_object (chain overrides opt_items) OrderBuilder_withItems builder;
          builder = if_truthy truthy_object (chain overrides opt_shippingAddress)
                      OrderBuilder_withShippingAddress builder;
          builder = if_truthy truthy_object (chain overrides opt_status) OrderBuilder_withStatus builder
      in OrderBuilder_build fk builder g)"

definition createSimpleOrder :: "'g faker \<Rightarrow> 'g \<Rightarrow> order \<times> 'g" where
  "createSimpleOrder fk g =
     (let (ord, b, g') = OrderBuilder_buildSimple fk new_OrderBuilder g in (ord, g'))"

section \<open>Phone numbers\<close>

text \<open>The character of a decimal digit.\<close>

definition digit_char :: "int \<Rightarrow> char" where
  "digit_char d = char_of (48 + nat d)"

text \<open>
  Modelled from the spec: \<open>faker.phone.number(format)\<close> is code of the third-party
  library and is not among the sources. The spec gives \<open>randomPhone\<close> a fixed output
  format, the digit pattern of its format string: every \<open>#\<close> of the format stands for one
  decimal digit taken from the generator, every other character stands for itself.
\<close>

fun phone_number :: "'g faker \<Rightarrow> string \<Rightarrow> 'g \<Rightarrow> string \<times> 'g" where
  "phone_number fk [] g = ([], g)"
| "phone_number fk (c # cs) g =
     (if c = CHR ''#''
      then (let (d, g1) = number_int fk 0 9 g;
                (r, g2) = phone_number fk cs g1
            in (digit_char d # r, g2))
      else (let (r, g2) = phone_number fk cs g in (c # r, g2)))"

definition randomPhone :: "'g faker \<Rightarrow> 'g \<Rightarrow> string \<times> 'g" where
  "randomPhone fk g = phone_number fk ''###-###-####'' g"

definition is_digit :: "char \<Rightarrow> bool" where
  "is_digit c = (let n = (of_char c :: nat) in 48 \<le> n \<and> n \<le> 57)"

text \<open>A string matches a format when it has the format's length, a digit wherever the
  format has \<open>#\<close>, and the format's own character everywhere else.\<close>

fun matches_format :: "string \<Rightarrow> string \<Rightarrow> bool" where
  "matches_format [] [] = True"
| "matches_format (p # ps) (c # cs) =
     ((if p = CHR ''#'' then is_digit c else c = p) \<and> matches_format ps cs)"
| "matches_format _ _ = False"

section \<open>Contracts of the generator\<close>

text \<open>\<open>faker.number.int({ min, max })\<close> returns an integer between its bounds.\<close>

definition number_int_in_range :: "'g faker \<Rightarrow> bool" where
  "number_int_in_range fk \<longleftrightarrow>
     (\<forall>lo hi g. lo \<le> hi \<longrightarrow> lo \<le> fst (number_int fk lo hi g) \<and> fst (number_int fk lo hi g) \<le> hi)"

text \<open>The string generators that the builders call return non-empty strings.\<close>

definition generates_nonempty :: "'g faker \<Rightarrow> bool" where
  "generates_nonempty fk \<longleftrightarrow>
     (\<forall>g. fst (person_firstName fk g) \<noteq> [] \<and> fst (person_lastName fk g) \<noteq> [] \<and>
          fst (internet_email fk g) \<noteq> [] \<and> fst (internet_password fk (Some 12) g) \<noteq> [] \<and>
          fst (internet_password fk None g) \<noteq> [] \<and>
          fst (location_streetAddress fk g) \<noteq> [] \<and> fst (location_city fk g) \<noteq> [] \<and>
          fst (location_state fk False g) \<noteq> [] \<and> fst (location_state fk True g) \<noteq> [] \<and>
          fst (location_zipCode fk g) \<noteq> [] \<and> fst (location_country fk g) \<noteq> [] \<and>
          fst (commerce_productName fk g) \<noteq> [] \<and> fst (commerce_productDescription fk g) \<noteq> [] \<and>
          fst (string_alphanumeric fk 10 g) \<noteq> [] \<and> fst (commerce_department fk g) \<noteq> [])"

section \<open>A concrete generator\<close>

text \<open>
  A small generator on which the builders can be evaluated: its state is a counter, which
  every call increments, and its values are fixed or alternate with the counter.
\<close>

definition demo_faker :: "nat faker" where
  "demo_faker =
     \<lparr>seed = (\<lambda>s. case s of Num m u \<Rightarrow> nat (\<bar>m\<bar> mod 1000) | _ \<Rightarrow> 0),
      person_firstName = (\<lambda>g. (if g mod 3 = 0 then ''Ada'' else ''Alan'', Suc g)),
      person_lastName = (\<lambda>g. (if even g then ''Lovelace'' else ''Turing'', Suc g)),
      internet_email = (\<lambda>g. (''ada@example.com'', Suc g)),
      internet_password = (\<lambda>n g. (replicate (case n of None \<Rightarrow> 15 | Some k \<Rightarrow> k) CHR ''x'', Suc g)),
      location_streetAddress = (\<lambda>g. (''1 Main St'', Suc g)),
      location_city = (\<lambda>g. (''Springfield'', Suc g)),
      location_state = (\<lambda>abbreviated g. (if abbreviated then ''IL'' else ''Illinois'', Suc g)),
      location_zipCode = (\<lambda>g. (''62701'', Suc g)),
      location_country = (\<lambda>g. (''Canada'', Suc g)),
      commerce_productName = (\<lambda>g. (''Chair'', Suc g)),
      commerce_productDescription = (\<lambda>g. (''A chair'', Suc g)),
      commerce_price = (\<lambda>lo hi g. (if g mod 3 = 0 then ''12.50'' else ''47.00'', Suc g)),
      commerce_department = (\<lambda>g. (''Home'', Suc g)),
      string_alphanumeric = (\<lambda>n g. (replicate n (CHR ''a''), Suc g)),
      datatype_boolean = (\<lambda>g. (even g, Suc g)),
      number_int = (\<lambda>lo hi g. (lo + int g mod (hi - lo + 1), Suc g)),
      parseFloat = (\<lambda>s. if s = ''12.50'' then js_literal 125 10 else js_of_int 47)\<rparr>"

section \<open>Chains of override calls\<close>

text \<open>
  A use of a builder is \<open>new B().c\<^sub>1. ... .c\<^sub>n.build()\<close>: every mutator returns \<open>this\<close>, so
  the calls act one after the other on the same builder. A call is a value of the
  datatype of its class, and a chain of calls runs from a fresh builder.
\<close>

datatype user_call =
  WithEmail string | WithPassword string | WithFirstName string | WithLastName string
  | WithPhone string

datatype address_call =
  WithStreet string | WithCity string | WithState string | WithZipCode string
  | WithCountry string

datatype product_call =
  WithName string | WithDescription string | WithPrice js_number | WithSku string
  | WithCategory string | WithStockStatus bool | WithQuantity js_number

datatype order_call =
  WithOrderNumber string | WithUser user | WithItems "order_item list"
  | WithShippingAddress address | WithBillingAddress address | WithStatus order_status
  | WithPaymentMethod string

fun UserBuilder_call :: "user_call \<Rightarrow> user_partial \<Rightarrow> user_partial" where
  "UserBuilder_call (WithEmail v) = UserBuilder_withEmail v"
| "UserBuilder_call (WithPassword v) = UserBuilder_withPassword v"
| "UserBuilder_call (WithFirstName v) = UserBuilder_withFirstName v"
| "UserBuilder_call (WithLastName v) = UserBuilder_withLastName v"
| "UserBuilder_call (WithPhone v) = UserBuilder_withPhone v"

fun AddressBuilder_call :: "address_call \<Rightarrow> address_partial \<Rightarrow> address_partial" where
  "AddressBuilder_call (WithStreet v) = AddressBuilder_withStreet v"
| "AddressBuilder_call (WithCity v) = AddressBuilder_withCity v"
| "AddressBuilder_call (WithState v) = AddressBuilder_withState v"
| "AddressBuilder_call (WithZipCode v) = AddressBuilder_withZipCode v"
| "AddressBuilder_call (WithCountry v) = AddressBuilder_withCountry v"

fun ProductBuilder_call :: "product_call \<Rightarrow> product_partial \<Rightarrow> product_partial" where
  "ProductBuilder_call (WithName v) = ProductBuilder_withName v"
| "ProductBuilder_call (WithDescription v) = ProductBuilder_withDescription v"
| "ProductBuilder_call (WithPrice v) = ProductBuilder_withPrice v"
| "ProductBuilder_call (WithSku v) = ProductBuilder_withSku v"
| "ProductBuilder_call (WithCategory v) = ProductBuilder_withCategory v"
| "ProductBuilder_call (WithStockStatus v) = ProductBuilder_withStockStatus v"
| "ProductBuilder_call (WithQuantity v) = ProductBuilder_withQuantity v"

fun OrderBuilder_call :: "order_call \<Rightarrow> order_partial \<Rightarrow> order_partial" where
  "OrderBuilder_call (WithOrderNumber v) = OrderBuilder_withOrderNumber v"
| "OrderBuilder_call (WithUser v) = OrderBuilder_withUser v"
| "OrderBuilder_call (WithItems v) = OrderBuilder_withItems v"
| "OrderBuilder_call (WithShippingAddress v) = OrderBuilder_withShippingAddress v"
| "OrderBuilder_call (WithBillingAddress v) = OrderBuilder_withBillingAddress v"
| "OrderBuilder_call (WithStatus v) = OrderBuilder_withStatus v"
| "OrderBuilder_call (WithPaymentMethod v) = OrderBuilder_withPaymentMethod v"

definition UserBuilder_chain :: "user_call list \<Rightarrow> user_partial" where
  "UserBuilder_chain calls = foldl (\<lambda>b c. UserBuilder_call c b) new_UserBuilder calls"

definition AddressBuilder_chain :: "address_call list \<Rightarrow> address_partial" where
  "AddressBuilder_chain calls = foldl (\<lambda>b c. AddressBuilder_call c b) new_AddressBuilder calls"

definition ProductBuilder_chain :: "product_call list \<Rightarrow> product_partial" where
  "ProductBuilder_chain calls = foldl (\<lambda>b c. ProductBuilder_call c b) new_ProductBuilder calls"

definition OrderBuilder_chain :: "order_call list \<Rightarrow> order_partial" where
  "OrderBuilder_chain calls = foldl (\<lambda>b c. OrderBuilder_call c b) new_OrderBuilder calls"

text \<open>
  What a list of calls says about one field: the argument of the last call of the mutator
  of that field, if there is one. The argument that a single call gives for a field is
  read off the call itself, not off its effect on a builder.
\<close>

fun last_given :: "('c \<Rightarrow> 'a option) \<Rightarrow> 'c list \<Rightarrow> 'a option" where
  "last_given given [] = None"
| "last_given given (c # cs) =
     (case last_given given cs of Some v \<Rightarrow> Some v | None \<Rightarrow> given c)"

definition given_email :: "user_call \<Rightarrow> string option" where
  "given_email c = (case c of WithEmail v \<Rightarrow> Some v | _ \<Rightarrow> None)"

definition given_password :: "user_call \<Rightarrow> string option" where
  "given_password c = (case c of WithPassword v \<Rightarrow> Some v | _ \<Rightarrow> None)"

definition given_firstName :: "user_call \<Rightarrow> string option" where
  "given_firstName c = (case c of WithFirstName v \<Rightarrow> Some v | _ \<Rightarrow> None)"

definition given_lastName :: "user_call \<Rightarrow> string option" where
  "given_lastName c = (case c of WithLastName v \<Rightarrow> Some v | _ \<Rightarrow> None)"

definition given_phone :: "user_call \<Rightarrow> string option" where
  "given_phone c = (case c of WithPhone v \<Rightarrow> Some v | _ \<Rightarrow> None)"

definition given_street :: "address_call \<Rightarrow> string option" where
  "given_street c = (case c of WithStreet v \<Rightarrow> Some v | _ \<Rightarrow> None)"

definition given_city :: "address_call \<Rightarrow> string option" where
  "given_city c = (case c of WithCity v \<Rightarrow> Some v | _ \<Rightarrow> None)"

definition given_state :: "address_call \<Rightarrow> string option" where
  "given_state c = (case c of WithState v \<Rightarrow> Some v | _ \<Rightarrow> None)"

definition given_zipCode :: "address_call \<Rightarrow> string option" where
  "given_zipCode c = (case c of WithZipCode v \<Rightarrow> Some v | _ \<Rightarrow> None)"

definition given_country :: "address_call \<Rightarrow> string option" where
  "given_country c = (case c of WithCountry v \<Rightarrow> Some v | _ \<Rightarrow> None)"

definition given_name :: "product_call \<Rightarrow> string option" where
  "given_name c = (case c of WithName v \<Rightarrow> Some v | _ \<Rightarrow> None)"

definition given_description :: "product_call \<Rightarrow> string option" where
  "given_description c = (case c of WithDescription v \<Rightarrow> Some v | _ \<Rightarrow> None)"

definition given_price :: "product_call \<Rightarrow> js_number option" where
  "given_price c = (case c of WithPrice v \<Rightarrow> Some v | _ \<Rightarrow> None)"

definition given_sku :: "product_call \<Rightarrow> string option" where
  "given_sku c = (case c of WithSku v \<Rightarrow> Some v | _ \<Rightarrow> None)"

definition given_category :: "product_call \<Rightarrow> string option" where
  "given_category c = (case c of WithCategory v \<Rightarrow> Some v | _ \<Rightarrow> None)"

definition given_inStock :: "product_call \<Rightarrow> bool option" where
  "given_inStock c = (case c of WithStockStatus v \<Rightarrow> Some v | _ \<Rightarrow> None)"

definition given_quantity :: "product_call \<Rightarrow> js_number option" where
  "given_quantity c = (case c of WithQuantity v \<Rightarrow> Some v | _ \<Rightarrow> None)"

definition given_orderNumber :: "order_call \<Rightarrow> string option" where
  "given_orderNumber c = (case c of WithOrderNumber v \<Rightarrow> Some v | _ \<Rightarrow> None)"

definition given_user :: "order_call \<Rightarrow> user option" where
  "given_user c = (case c of WithUser v \<Rightarrow> Some v | _ \<Rightarrow> None)"

definition given_items :: "order_call \<Rightarrow> order_item list option" where
  "given_items c = (case c of WithItems v \<Rightarrow> Some v | _ \<Rightarrow> None)"

definition given_shippingAddress :: "order_call \<Rightarrow> address option" where
  "given_shippingAddress c = (case c of WithShippingAddress v \<Rightarrow> Some v | _ \<Rightarrow> None)"

definition given_billingAddress :: "order_call \<Rightarrow> address option" where
  "given_billingAddress c = (case c of WithBillingAddress v \<Rightarrow> Some v | _ \<Rightarrow> None)"

definition given_status :: "order_call \<Rightarrow> order_status option" where
  "given_status c = (case c of WithStatus v \<Rightarrow> Some v | _ \<Rightarrow> None)"

definition given_paymentMethod :: "order_call \<Rightarrow> string option" where
  "given_paymentMethod c = (case c of WithPaymentMethod v \<Rightarrow> Some v | _ \<Rightarrow> None)"

section \<open>Overrides that pass a guard\<close>

text \<open>The override that a factory method hands to the builder through a guard: the value
  of the field in the override record if it is there and passes the test \<open>t\<close> of the
  guard, and nothing otherwise.\<close>

definition passes :: "('a \<Rightarrow> bool) \<Rightarrow> 'a option \<Rightarrow> 'a option" where
  "passes t v = (case v of None \<Rightarrow> None | Some x \<Rightarrow> if t x then Some x else None)"

section \<open>Sums without rounding\<close>

text \<open>
  The accumulation of \<open>subtotal\<close> from \<open>acc\<close> over a list of items is free of rounding when
  all prices and quantities are finite and every product and every partial sum is finite
  and stands for the exact product and the exact sum of its operands.
\<close>

fun no_rounding :: "js_number \<Rightarrow> order_item list \<Rightarrow> bool" where
  "no_rounding acc [] = True"
| "no_rounding acc (it # its) =
     (let p = js_mul (item_price it) (item_quantity it);
          s = js_add acc p
      in is_finite (item_price it) \<and> is_finite (item_quantity it) \<and> is_finite p \<and> is_finite s \<and>
         num_value p = num_value (item_price it) * num_value (item_quantity it) \<and>
         num_value s = num_value acc + num_value p \<and>
         no_rounding s its)"

text \<open>An item of the given price and quantity, around the product of \<open>buildSimple\<close>.\<close>

definition priced_item :: "js_number \<Rightarrow> js_number \<Rightarrow> order_item" where
  "priced_item p q =
     \<lparr>item_product =
        \<lparr>name = ''Test Product'', description = ''A test product'', price = p,
         sku = ''TEST-001'', category = ''Test'', inStock = True, quantity = None\<rparr>,
      item_quantity = q, item_price = p\<rparr>"

section \<open>The seeded scenario\<close>

text \<open>
  The documented use of seeding: \<open>setSeed(s)\<close>, then two entities built one after the
  other by fresh builders of the same class, \<open>build\<close> being that class's \<open>new B().build()\<close>.
  The result is the pair of entities and the state in which the generator is left.
\<close>

definition seeded_pair :: "'g faker \<Rightarrow> ('g \<Rightarrow> 'a \<times> 'g) \<Rightarrow> js_number \<Rightarrow> 'g \<Rightarrow> ('a \<times> 'a) \<times> 'g" where
  "seeded_pair fk build s g =
     (let g0 = setSeed fk s g;
          (a, g1) = build g0;
          (b, g2) = build g1
      in ((a, b), g2))"

section \<open>The methods of the builder classes\<close>

text \<open>The methods that each builder class declares, in the order of the source.\<close>

definition UserBuilder_methods :: "string list" where
  "UserBuilder_methods =
     [''withEmail'', ''withPassword'', ''withFirstName'', ''withLastName'', ''withPhone'',
      ''build'']"

definition AddressBuilder_methods :: "string list" where
  "AddressBuilder_methods =
     [''withStreet'', ''withCity'', ''withState'', ''withZipCode'', ''withCountry'',
      ''buildUS'', ''build'', ''reset'']"

definition ProductBuilder_methods :: "string list" where
  "ProductBuilder_methods =
     [''withName'', ''withDescription'', ''withPrice'', ''withSku'', ''withCategory'',
      ''withStockStatus'', ''withQuantity'', ''build'', ''buildInStock'', ''buildOutOfStock'',
      ''reset'']"

definition OrderBuilder_methods :: "string list" where
  "OrderBuilder_methods =
     [''withOrderNumber'', ''withUser'', ''withItems'', ''withShippingAddress'',
      ''withBillingAddress'', ''withStatus'', ''withPaymentMethod'', ''build'', ''buildSimple'',
      ''reset'']"

section \<open>Auxiliary facts\<close>

text \<open>The doubles of the literals used below, their products and sums, and the rational
  numbers they stand for.\<close>

lemmas round_core =
  round_double_def round_pos_def round_scaled_def Let_def bit_length.simps signed_zero_def
  signed_infinity_def

lemma double_values:
  "js_of_int 1 = Num 4503599627370496 (- 52)"
  "js_of_int 2 = Num 4503599627370496 (- 51)"
  "js_of_int 3 = Num 6755399441055744 (- 51)"
  "js_of_int 10 = Num 5629499534213120 (- 49)"
  "js_of_int 20 = Num 5629499534213120 (- 48)"
  "js_literal 205 10 = Num 5770237022568448 (- 48)"
  "js_literal 615 10 = Num 8655355533852672 (- 47)"
  "js_literal 815 10 = Num 5735052650479616 (- 46)"
  "js_literal 2999 100 = Num 8441434551552573 (- 48)"
  "js_of_int 10000000000000000 = Num 5000000000000000 1"
  by (simp_all add: js_literal_def js_of_int_def round_core)

text \<open>Some well-known sums and products: \<open>0.1 + 0.2\<close> and \<open>0.1 * 3\<close> are
  \<open>0.30000000000000004\<close>, not \<open>0.3\<close>; adding 1 to \<open>10\<^sup>1\<^sup>6\<close> or to \<open>2\<^sup>5\<^sup>3\<close> changes
  nothing, and \<open>2\<^sup>5\<^sup>3 + 3\<close> is \<open>2\<^sup>5\<^sup>3 + 4\<close>.\<close>

lemma double_known_values:
  "js_add (js_literal 1 10) (js_literal 2 10) = js_literal 30000000000000004 100000000000000000"
  "js_add (js_literal 1 10) (js_literal 2 10) \<noteq> js_literal 3 10"
  "js_mul (js_literal 1 10) (js_of_int 3) = js_literal 30000000000000004 100000000000000000"
  "js_add (js_of_int 10000000000000000) (js_of_int 1) = js_of_int 10000000000000000"
  "js_add (js_of_int 9007199254740992) (js_of_int 1) = js_of_int 9007199254740992"
  "js_add (js_of_int 9007199254740992) (js_of_int 3) = js_of_int 9007199254740996"
  "js_mul (js_of_int (- 2)) (Num 0 0) = NegZero"
  "js_add NegZero (Num 0 0) = Num 0 0"
  "js_mul PosInf (Num 0 0) = NaN"
  "js_add PosInf NegInf = NaN"
  by (simp_all add: js_literal_def js_of_int_def round_core)

lemma double_products:
  "js_mul (js_of_int 10) (js_of_int 2) = js_of_int 20"
  "js_mul (js_literal 205 10) (js_of_int 3) = js_literal 615 10"
  "js_mul (js_literal 2999 100) (js_of_int 1) = js_literal 2999 100"
  "js_mul (js_of_int 10000000000000000) (js_of_int 1) = js_of_int 10000000000000000"
  "js_mul (js_of_int 1) (js_of_int 1) = js_of_int 1"
  by (simp_all add: double_values round_core)

lemma double_sums:
  "js_add (Num 0 0) (js_of_int 20) = js_of_int 20"
  "js_add (js_of_int 20) (js_literal 615 10) = js_literal 815 10"
  "js_add (Num 0 0) (js_literal 2999 100) = js_literal 2999 100"
  "js_add (Num 0 0) (js_of_int 10000000000000000) = js_of_int 10000000000000000"
  "js_add (js_of_int 10000000000000000) (js_of_int 1) = js_of_int 10000000000000000"
  by (simp_all add: double_values round_core)

lemma double_num_values:
  "num_value (js_of_int 1) = 1"
  "num_value (js_of_int 2) = 2"
  "num_value (js_of_int 3) = 3"
  "num_value (js_of_int 10) = 10"
  "num_value (js_of_int 20) = 20"
  "num_value (js_literal 205 10) = 205 / 10"
  "num_value (js_literal 615 10) = 615 / 10"
  "num_value (js_literal 815 10) = 815 / 10"
  "num_value (js_of_int 10000000000000000) = 10000000000000000"
  by (simp_all add: double_values pow2_def)

lemma double_finite:
  "is_finite (js_of_int 2)" "is_finite (js_of_int 3)" "is_finite (js_of_int 10)"
  "is_finite (js_of_int 20)" "is_finite (js_literal 205 10)" "is_finite (js_literal 615 10)"
  "is_finite (js_literal 815 10)"
  by (simp_all add: double_values)

lemma fst_nullish: "fst (nullish x gen g) = (case x of None \<Rightarrow> fst (gen g) | Some v \<Rightarrow> v)"
  by (cases x) simp_all

lemma subtotal_simple: "subtotal simple_items = js_literal 2999 100"
  by (simp add: subtotal_def simple_items_def double_products double_sums)

lemma items_build:
  "items (fst (OrderBuilder_build fk b g)) = fst (nullish (opt_items b) (default_items fk) g)"
  by (simp add: OrderBuilder_build_def Let_def split_beta)

lemma total_build:
  "total (fst (OrderBuilder_build fk b g)) =
     subtotal (fst (nullish (opt_items b) (default_items fk) g))"
  by (simp add: OrderBuilder_build_def Let_def split_beta)

lemma inStock_build:
  "inStock (fst (ProductBuilder_build fk (b\<lparr>opt_inStock := Some v\<rparr>) g)) = v"
  by (simp add: ProductBuilder_build_def Let_def split_beta)

lemma default_items_facts:
  "map (inStock \<circ> item_product) (fst (default_items fk g)) = [True]"
  "map (price \<circ> item_product) (fst (default_items fk g)) =
     [fst (price_draw fk (js_of_int 10) (js_of_int 100)
        (snd (commerce_productDescription fk (snd (commerce_productName fk g)))))]"
  "map item_price (fst (default_items fk g)) =
     [fst (price_draw fk (js_of_int 10) (js_of_int 100) (snd (number_int fk 1 5
        (snd (commerce_department fk (snd (upper_alphanumeric fk 10
          (snd (price_draw fk (js_of_int 10) (js_of_int 100)
            (snd (commerce_productDescription fk (snd (commerce_productName fk g)))))))))))))]"
  by (simp_all add: default_items_def Let_def split_beta)

lemma toUpperCase_empty: "toUpperCase s = [] \<longleftrightarrow> s = []"
  by (simp add: toUpperCase_def)

lemma demo_faker_nonempty: "generates_nonempty demo_faker"
  by (simp add: generates_nonempty_def demo_faker_def)

lemma demo_faker_in_range: "number_int_in_range demo_faker"
proof -
  have "lo \<le> lo + int g mod (hi - lo + 1) \<and> lo + int g mod (hi - lo + 1) \<le> hi"
    if "lo \<le> hi" for lo hi :: int and g :: nat
  proof -
    from that have pos: "0 < hi - lo + 1" by simp
    have "0 \<le> int g mod (hi - lo + 1)" using pos by simp
    moreover have "int g mod (hi - lo + 1) < hi - lo + 1" using pos by (rule pos_mod_bound)
    ultimately show ?thesis by simp
  qed
  then show ?thesis by (simp add: number_int_in_range_def demo_faker_def)
qed

section \<open>The order total\<close>

lemma fold_no_rounding:
  "no_rounding acc its \<Longrightarrow> is_finite acc \<Longrightarrow>
     is_finite (foldl (\<lambda>sum item. js_add sum (js_mul (item_price item) (item_quantity item)))
        acc its) \<and>
     num_value (foldl (\<lambda>sum item. js_add sum (js_mul (item_price item) (item_quantity item)))
        acc its) =
       num_value acc + (\<Sum>it\<leftarrow>its. num_value (item_price it) * num_value (item_quantity it))"
proof (induction its arbitrary: acc)
  case Nil
  then show ?case by simp
next
  case (Cons it its)
  let ?s = "js_add acc (js_mul (item_price it) (item_quantity it))"
  from Cons.prems have step: "no_rounding ?s its" "is_finite ?s"
    "num_value ?s =
       num_value acc + num_value (item_price it) * num_value (item_quantity it)"
    by (simp_all add: Let_def)
  from Cons.IH [OF step(1) step(2)] step(3) show ?case
    by (simp add: add.assoc)
qed

text \<open>
  Claim C1, as the code has it. The total of every order that a builder constructs is the
  sum, over the items of that order, of price times quantity as JavaScript computes it:
  the accumulation from 0, item after item, of the products, every product and every
  partial sum rounded to the nearest double. This holds for \<open>build()\<close> in any builder
  state, hence with explicit items as well as with the synthesized default item, and for
  \<open>buildSimple()\<close>. No operation sets the total apart from the items: no mutator writes a
  total, and a \<open>total\<close> present in the builder's record is not read by \<open>build()\<close>. Where the
  accumulation is free of rounding, the total is the exact sum.
\<close>

theorem order_total_is_rounded_sum:
  "total (fst (OrderBuilder_build fk b g)) =
     foldl (\<lambda>sum item. js_add sum (js_mul (item_price item) (item_quantity item))) (Num 0 0)
       (items (fst (OrderBuilder_build fk b g))) \<and>
   total (fst (OrderBuilder_buildSimple fk b g)) =
     foldl (\<lambda>sum item. js_add sum (js_mul (item_price item) (item_quantity item))) (Num 0 0)
       (items (fst (OrderBuilder_buildSimple fk b g))) \<and>
   total (fst (OrderBuilder_build fk (b\<lparr>opt_total := t\<rparr>) g)) =
     total (fst (OrderBuilder_build fk b g)) \<and>
   (no_rounding (Num 0 0) (items (fst (OrderBuilder_build fk b g))) \<longrightarrow>
      is_finite (total (fst (OrderBuilder_build fk b g))) \<and>
      num_value (total (fst (OrderBuilder_build fk b g))) =
        (\<Sum>it\<leftarrow>items (fst (OrderBuilder_build fk b g)).
           num_value (item_price it) * num_value (item_quantity it)))"
proof -
  have exact: "is_finite (subtotal its) \<and>
      num_value (subtotal its) =
        (\<Sum>it\<leftarrow>its. num_value (item_price it) * num_value (item_quantity it))"
    if "no_rounding (Num 0 0) its" for its
    using fold_no_rounding [OF that] by (simp add: subtotal_def pow2_def)
  show ?thesis
    using exact [of "items (fst (OrderBuilder_build fk b g))"]
    by (simp add: OrderBuilder_buildSimple_def Let_def split_beta items_build total_build
        subtotal_def [symmetric])
qed

text \<open>Two explicit items, 10 at quantity 2 and 20.5 at quantity 3: nothing is rounded and
  the total is 81.5.\<close>

theorem order_total_is_rounded_sum_witness:
  "no_rounding (Num 0 0) (items (fst (OrderBuilder_build demo_faker
      (OrderBuilder_withItems
         [priced_item (js_of_int 10) (js_of_int 2), priced_item (js_literal 205 10) (js_of_int 3)]
         new_OrderBuilder) 0))) \<and>
   total (fst (OrderBuilder_build demo_faker
      (OrderBuilder_withItems
         [priced_item (js_of_int 10) (js_of_int 2), priced_item (js_literal 205 10) (js_of_int 3)]
         new_OrderBuilder) 0)) = js_literal 815 10 \<and>
   num_value (js_literal 815 10) = 815 / 10"
  using order_total_is_rounded_sum [of demo_faker
      "OrderBuilder_withItems
         [priced_item (js_of_int 10) (js_of_int 2), priced_item (js_literal 205 10) (js_of_int 3)]
         new_OrderBuilder" 0]
  by (simp add: items_build total_build OrderBuilder_withItems_def subtotal_def priced_item_def
      double_products double_sums double_num_values double_finite)

text \<open>
  The claim as first stated, with the exact sum, fails: for three explicit items of
  quantity 1 priced 10000000000000000, 1 and 1 the total is 10000000000000000, each
  addition of 1 being rounded away, and the sum of price times quantity is
  10000000000000002.
\<close>

theorem order_total_exact_sum_counterexample:
  "total (fst (OrderBuilder_build demo_faker
      (OrderBuilder_withItems
         [priced_item (js_of_int 10000000000000000) (js_of_int 1),
          priced_item (js_of_int 1) (js_of_int 1), priced_item (js_of_int 1) (js_of_int 1)]
         new_OrderBuilder) 0)) = js_of_int 10000000000000000 \<and>
   num_value (js_of_int 10000000000000000) = 10000000000000000 \<and>
   (\<Sum>it\<leftarrow>items (fst (OrderBuilder_build demo_faker
      (OrderBuilder_withItems
         [priced_item (js_of_int 10000000000000000) (js_of_int 1),
          priced_item (js_of_int 1) (js_of_int 1), priced_item (js_of_int 1) (js_of_int 1)]
         new_OrderBuilder) 0)). num_value (item_price it) * num_value (item_quantity it)) =
     10000000000000002"
  by (simp add: items_build total_build OrderBuilder_withItems_def subtotal_def priced_item_def
      double_products double_sums double_num_values)

section \<open>Seeding\<close>

text \<open>
  Claim C2. What \<open>build()\<close> of a fresh builder returns is, for each of the four classes, a
  record of values that the library generates from the state \<open>h\<close> in which it finds the
  generator, call after call in the order of the source, with nothing else entering it.
  The seeded scenario is therefore two such builds from the state that \<open>faker.seed(s)\<close>
  sets, and for every seed \<open>s\<close> it gives the same two entities, field for field, and
  leaves the generator in the same state, whatever the state \<open>g\<close> or \<open>g'\<close> of the generator
  before \<open>setSeed(s)\<close>; in particular when the second run starts where the first ended.
\<close>

theorem seeded_runs_agree:
  "UserBuilder_build fk new_UserBuilder h =
     (let (fnm, h1) = person_firstName fk h;
          (lnm, h2) = person_lastName fk h1;
          (em, h3) = internet_email fk h2;
          (pw, h4) = internet_password fk (Some 12) h3
      in (\<lparr>firstName = fnm, lastName = lnm, email = em, password = pw, phone = None\<rparr>, h4)) \<and>
   AddressBuilder_build fk new_AddressBuilder h =
     (let (sr, h1) = location_streetAddress fk h;
          (ci, h2) = location_city fk h1;
          (sa, h3) = location_state fk False h2;
          (zi, h4) = location_zipCode fk h3;
          (co, h5) = location_country fk h4
      in (\<lparr>street = sr, city = ci, state = sa, zipCode = zi, country = co\<rparr>, h5)) \<and>
   ProductBuilder_build fk new_ProductBuilder h =
     (let (na, h1) = commerce_productName fk h;
          (de, h2) = commerce_productDescription fk h1;
          (ps, h3) = commerce_price fk (js_of_int 10) (js_of_int 1000) h2;
          (sk, h4) = string_alphanumeric fk 10 h3;
          (ca, h5) = commerce_department fk h4;
          (ins, h6) = datatype_boolean fk h5
      in (\<lparr>name = na, description = de, price = parseFloat fk ps, sku = toUpperCase sk,
           category = ca, inStock = ins, quantity = None\<rparr>, h6)) \<and>
   OrderBuilder_build fk new_OrderBuilder h =
     (let (its, h1) = default_items fk h;
          (onr, h2) = default_orderNumber fk h1;
          (us, h3) = default_user fk h2;
          (sh, h4) = default_shippingAddress fk h3
      in (\<lparr>orderNumber = onr, order_user = us, items = its, shippingAddress = sh,
           billingAddress = None, total = subtotal its, status = Pending,
           paymentMethod = ''Credit Card''\<rparr>, h4)) \<and>
   seeded_pair fk (UserBuilder_build fk new_UserBuilder) s g =
     (let (a, g1) = UserBuilder_build fk new_UserBuilder (seed fk s);
          (b, g2) = UserBuilder_build fk new_UserBuilder g1
      in ((a, b), g2)) \<and>
   seeded_pair fk (AddressBuilder_build fk new_AddressBuilder) s g =
     (let (a, g1) = AddressBuilder_build fk new_AddressBuilder (seed fk s);
          (b, g2) = AddressBuilder_build fk new_AddressBuilder g1
      in ((a, b), g2)) \<and>
   seeded_pair fk (ProductBuilder_build fk new_ProductBuilder) s g =
     (let (a, g1) = ProductBuilder_build fk new_ProductBuilder (seed fk s);
          (b, g2) = ProductBuilder_build fk new_ProductBuilder g1
      in ((a, b), g2)) \<and>
   seeded_pair fk (OrderBuilder_build fk new_OrderBuilder) s g =
     (let (a, g1) = OrderBuilder_build fk new_OrderBuilder (seed fk s);
          (b, g2) = OrderBuilder_build fk new_OrderBuilder g1
      in ((a, b), g2)) \<and>
   seeded_pair fk (UserBuilder_build fk new_UserBuilder) s g =
     seeded_pair fk (UserBuilder_build fk new_UserBuilder) s g' \<and>
   seeded_pair fk (AddressBuilder_build fk new_AddressBuilder) s g =
     seeded_pair fk (AddressBuilder_build fk new_AddressBuilder) s g' \<and>
   seeded_pair fk (ProductBuilder_build fk new_ProductBuilder) s g =
     seeded_pair fk (ProductBuilder_build fk new_ProductBuilder) s g' \<and>
   seeded_pair fk (OrderBuilder_build fk new_OrderBuilder) s g =
     seeded_pair fk (OrderBuilder_build fk new_OrderBuilder) s g'"
proof -
  have user: "UserBuilder_build fk new_UserBuilder h =
     (let (fnm, h1) = person_firstName fk h;
          (lnm, h2) = person_lastName fk h1;
          (em, h3) = internet_email fk h2;
          (pw, h4) = internet_password fk (Some 12) h3
      in (\<lparr>firstName = fnm, lastName = lnm, email = em, password = pw, phone = None\<rparr>, h4))"
    by (simp add: UserBuilder_build_def new_UserBuilder_def)
  have address: "AddressBuilder_build fk new_AddressBuilder h =
     (let (sr, h1) = location_streetAddress fk h;
          (ci, h2) = location_city fk h1;
          (sa, h3) = location_state fk False h2;
          (zi, h4) = location_zipCode fk h3;
          (co, h5) = location_country fk h4
      in (\<lparr>street = sr, city = ci, state = sa, zipCode = zi, country = co\<rparr>, h5))"
    by (simp add: AddressBuilder_build_def new_AddressBuilder_def)
  have product: "ProductBuilder_build fk new_ProductBuilder h =
     (let (na, h1) = commerce_productName fk h;
          (de, h2) = commerce_productDescription fk h1;
          (ps, h3) = commerce_price fk (js_of_int 10) (js_of_int 1000) h2;
          (sk, h4) = string_alphanumeric fk 10 h3;
          (ca, h5) = commerce_department fk h4;
          (ins, h6) = datatype_boolean fk h5
      in (\<lparr>name = na, description = de, price = parseFloat fk ps, sku = toUpperCase sk,
           category = ca, inStock = ins, quantity = None\<rparr>, h6))"
    by (simp add: ProductBuilder_build_def new_ProductBuilder_def price_draw_def
        upper_alphanumeric_def Let_def split_beta)
  have order: "OrderBuilder_build fk new_OrderBuilder h =
     (let (its, h1) = default_items fk h;
          (onr, h2) = default_orderNumber fk h1;
          (us, h3) = default_user fk h2;
          (sh, h4) = default_shippingAddress fk h3
      in (\<lparr>orderNumber = onr, order_user = us, items = its, shippingAddress = sh,
           billingAddress = None, total = subtotal its, status = Pending,
           paymentMethod = ''Credit Card''\<rparr>, h4))"
    by (simp add: OrderBuilder_build_def new_OrderBuilder_def Let_def split_beta)
  have pair: "seeded_pair fk f s k =
     (let (a, g1) = f (seed fk s); (b, g2) = f g1 in ((a, b), g2))" for f :: "'a \<Rightarrow> 'b \<times> 'a" and k
    by (simp add: seeded_pair_def setSeed_def)
  show ?thesis
    by (intro conjI user address product order) (simp_all only: pair)
qed

text \<open>
  On the concrete generator, seeded with 12345 in a state 0 and in a state 99: the two
  runs give the same two users, and the two users of a run differ from each other.
\<close>

theorem seeded_runs_agree_witness:
  "fst (seeded_pair demo_faker (UserBuilder_build demo_faker new_UserBuilder)
      (js_of_int 12345) 0) =
     (\<lparr>firstName = ''Ada'', lastName = ''Turing'', email = ''ada@example.com'',
       password = replicate 12 CHR ''x'', phone = None\<rparr>,
      \<lparr>firstName = ''Alan'', lastName = ''Turing'', email = ''ada@example.com'',
       password = replicate 12 CHR ''x'', phone = None\<rparr>) \<and>
   seeded_pair demo_faker (UserBuilder_build demo_faker new_UserBuilder) (js_of_int 12345) 0 =
     seeded_pair demo_faker (UserBuilder_build demo_faker new_UserBuilder) (js_of_int 12345) 99"
proof -
  have seed: "js_of_int 12345 = Num 6786735522447360 (- 39)"
    by (simp add: js_of_int_def round_core)
  have run: "fst (seeded_pair demo_faker (UserBuilder_build demo_faker new_UserBuilder)
      (js_of_int 12345) 0) =
     (\<lparr>firstName = ''Ada'', lastName = ''Turing'', email = ''ada@example.com'',
       password = replicate 12 CHR ''x'', phone = None\<rparr>,
      \<lparr>firstName = ''Alan'', lastName = ''Turing'', email = ''ada@example.com'',
       password = replicate 12 CHR ''x'', phone = None\<rparr>)"
    by (simp add: seed seeded_pair_def setSeed_def UserBuilder_build_def new_UserBuilder_def
        demo_faker_def Let_def)
  from seeded_runs_agree [where fk = demo_faker and h = 0 and s = "js_of_int 12345"
      and g = 0 and g' = 99]
  have "seeded_pair demo_faker (UserBuilder_build demo_faker new_UserBuilder)
      (js_of_int 12345) 0 =
    seeded_pair demo_faker (UserBuilder_build demo_faker new_UserBuilder) (js_of_int 12345) 99"
    by blast
  with run show ?thesis
    by blast
qed

section \<open>The factory's overrides\<close>

lemma createUser_fields:
  "opt_email uo = Some em \<Longrightarrow> em \<noteq> [] \<Longrightarrow> email (fst (createUser fk (Some uo) g)) = em"
  "opt_password uo = Some pw \<Longrightarrow> pw \<noteq> [] \<Longrightarrow> password (fst (createUser fk (Some uo) g)) = pw"
  "opt_firstName uo = Some fnm \<Longrightarrow> fnm \<noteq> [] \<Longrightarrow>
     firstName (fst (createUser fk (Some uo) g)) = fnm"
  "opt_lastName uo = Some lnm \<Longrightarrow> lnm \<noteq> [] \<Longrightarrow>
     lastName (fst (createUser fk (Some uo) g)) = lnm"
  "opt_phone uo = Some ph \<Longrightarrow> ph \<noteq> [] \<Longrightarrow> phone (fst (createUser fk (Some uo) g)) = Some ph"
  by (simp_all add: createUser_def chain_def if_truthy_def truthy_string_def Let_def
      UserBuilder_build_def split_beta fst_nullish
      UserBuilder_withEmail_def UserBuilder_withPassword_def
      UserBuilder_withFirstName_def UserBuilder_withLastName_def UserBuilder_withPhone_def
      new_UserBuilder_def split: option.splits)

lemma createAddress_fields:
  "opt_street ao = Some sr \<Longrightarrow> sr \<noteq> [] \<Longrightarrow> street (fst (createAddress fk (Some ao) g)) = sr"
  "opt_city ao = Some ci \<Longrightarrow> ci \<noteq> [] \<Longrightarrow> city (fst (createAddress fk (Some ao) g)) = ci"
  "opt_state ao = Some sa \<Longrightarrow> sa \<noteq> [] \<Longrightarrow> state (fst (createAddress fk (Some ao) g)) = sa"
  "opt_zipCode ao = Some zi \<Longrightarrow> zi \<noteq> [] \<Longrightarrow> zipCode (fst (createAddress fk (Some ao) g)) = zi"
  "opt_country ao = Some co \<Longrightarrow> co \<noteq> [] \<Longrightarrow> country (fst (createAddress fk (Some ao) g)) = co"
  by (simp_all add: createAddress_def chain_def if_truthy_def truthy_string_def Let_def
      AddressBuilder_build_def split_beta fst_nullish
      AddressBuilder_withStreet_def AddressBuilder_withCity_def AddressBuilder_withState_def
      AddressBuilder_withZipCode_def AddressBuilder_withCountry_def
      new_AddressBuilder_def split: option.splits)

lemma createProduct_fields:
  "opt_name po = Some na \<Longrightarrow> na \<noteq> [] \<Longrightarrow> name (fst (createProduct fk (Some po) g)) = na"
  "opt_price po = Some pr \<Longrightarrow> truthy_number pr \<Longrightarrow>
     price (fst (createProduct fk (Some po) g)) = pr"
  "opt_category po = Some ca \<Longrightarrow> ca \<noteq> [] \<Longrightarrow>
     category (fst (createProduct fk (Some po) g)) = ca"
  "opt_inStock po = Some ins \<Longrightarrow> inStock (fst (createProduct fk (Some po) g)) = ins"
  by (simp_all add: createProduct_def chain_def if_truthy_def if_defined_def truthy_string_def
      Let_def ProductBuilder_build_def split_beta fst_nullish
      ProductBuilder_withName_def ProductBuilder_withPrice_def ProductBuilder_withCategory_def
      ProductBuilder_withStockStatus_def new_ProductBuilder_def split: option.splits)

lemma createOrder_fields:
  "opt_user oo = Some us \<Longrightarrow> order_user (fst (createOrder fk (Some oo) g)) = us"
  "opt_items oo = Some its \<Longrightarrow> items (fst (createOrder fk (Some oo) g)) = its"
  "opt_shippingAddress oo = Some sh \<Longrightarrow>
     shippingAddress (fst (createOrder fk (Some oo) g)) = sh"
  "opt_status oo = Some st \<Longrightarrow> status (fst (createOrder fk (Some oo) g)) = st"
  by (simp_all add: createOrder_def chain_def if_truthy_def truthy_object_def Let_def
      OrderBuilder_build_def split_beta fst_nullish
      OrderBuilder_withUser_def OrderBuilder_withItems_def OrderBuilder_withShippingAddress_def
      OrderBuilder_withStatus_def new_OrderBuilder_def split: option.splits)

lemma create_builders:
  "createUser fk ov g =
     UserBuilder_build fk
       \<lparr>opt_firstName = passes truthy_string (chain ov opt_firstName),
        opt_lastName = passes truthy_string (chain ov opt_lastName),
        opt_email = passes truthy_string (chain ov opt_email),
        opt_password = passes truthy_string (chain ov opt_password),
        opt_phone = passes truthy_string (chain ov opt_phone)\<rparr> g"
  "createAddress fk av g =
     AddressBuilder_build fk
       \<lparr>opt_street = passes truthy_string (chain av opt_street),
        opt_city = passes truthy_string (chain av opt_city),
        opt_state = passes truthy_string (chain av opt_state),
        opt_zipCode = passes truthy_string (chain av opt_zipCode),
        opt_country = passes truthy_string (chain av opt_country)\<rparr> g"
  "createProduct fk pv g =
     ProductBuilder_build fk
       \<lparr>opt_name = passes truthy_string (chain pv opt_name),
        opt_description = None,
        opt_price = passes truthy_number (chain pv opt_price),
        opt_sku = None,
        opt_category = passes truthy_string (chain pv opt_category),
        opt_inStock = chain pv opt_inStock,
        opt_quantity = None\<rparr> g"
  "createOrder fk rv g =
     OrderBuilder_build fk
       \<lparr>opt_orderNumber = None,
        opt_user = chain rv opt_user,
        opt_items = chain rv opt_items,
        opt_shippingAddress = chain rv opt_shippingAddress,
        opt_billingAddress = None,
        opt_total = None,
        opt_status = chain rv opt_status,
        opt_paymentMethod = None\<rparr> g"
  by (simp_all add: createUser_def createAddress_def createProduct_def createOrder_def
      if_truthy_def if_defined_def passes_def truthy_object_def Let_def
      UserBuilder_withEmail_def UserBuilder_withPassword_def
      UserBuilder_withFirstName_def UserBuilder_withLastName_def UserBuilder_withPhone_def
      new_UserBuilder_def
      AddressBuilder_withStreet_def AddressBuilder_withCity_def AddressBuilder_withState_def
      AddressBuilder_withZipCode_def AddressBuilder_withCountry_def new_AddressBuilder_def
      ProductBuilder_withName_def ProductBuilder_withPrice_def ProductBuilder_withCategory_def
      ProductBuilder_withStockStatus_def new_ProductBuilder_def
      OrderBuilder_withUser_def OrderBuilder_withItems_def OrderBuilder_withShippingAddress_def
      OrderBuilder_withStatus_def new_OrderBuilder_def split: option.splits)

text \<open>
  Claim C3, as the code has it. Each factory method returns the \<open>build()\<close> of a fresh
  builder on which it has called \<open>withX\<close> for exactly those fields, among the ones it
  forwards, whose value in the override record passes the method's guard; a forwarded
  field that is absent from the record, or whose value does not pass the guard, is left
  unset on the builder, hence to the builder's default, as is every field when there is no
  record. A guard \<open>if (overrides?.f)\<close> passes a non-empty string and a number other than
  zero and NaN; \<open>inStock\<close>, whose guard is \<open>!== undefined\<close>, and a user, an item list, an
  address or a status pass whenever they are present. \<open>createUser\<close> and \<open>createAddress\<close>
  forward all their fields, \<open>createProduct\<close> forwards \<open>name\<close>, \<open>price\<close>, \<open>category\<close> and
  \<open>inStock\<close>, \<open>createOrder\<close> forwards \<open>user\<close>, \<open>items\<close>, \<open>shippingAddress\<close> and \<open>status\<close>.
  Every forwarded field that passes its guard is in the result with the value of the
  override record.
\<close>

theorem factory_forwards_truthy_overrides:
  "createUser fk ov g =
     UserBuilder_build fk
       \<lparr>opt_firstName = passes truthy_string (chain ov opt_firstName),
        opt_lastName = passes truthy_string (chain ov opt_lastName),
        opt_email = passes truthy_string (chain ov opt_email),
        opt_password = passes truthy_string (chain ov opt_password),
        opt_phone = passes truthy_string (chain ov opt_phone)\<rparr> g \<and>
   createAddress fk av g =
     AddressBuilder_build fk
       \<lparr>opt_street = passes truthy_string (chain av opt_street),
        opt_city = passes truthy_string (chain av opt_city),
        opt_state = passes truthy_string (chain av opt_state),
        opt_zipCode = passes truthy_string (chain av opt_zipCode),
        opt_country = passes truthy_string (chain av opt_country)\<rparr> g \<and>
   createProduct fk pv g =
     ProductBuilder_build fk
       \<lparr>opt_name = passes truthy_string (chain pv opt_name),
        opt_description = None,
        opt_price = passes truthy_number (chain pv opt_price),
        opt_sku = None,
        opt_category = passes truthy_string (chain pv opt_category),
        opt_inStock = chain pv opt_inStock,
        opt_quantity = None\<rparr> g \<and>
   createOrder fk rv g =
     OrderBuilder_build fk
       \<lparr>opt_orderNumber = None,
        opt_user = chain rv opt_user,
        opt_items = chain rv opt_items,
        opt_shippingAddress = chain rv opt_shippingAddress,
        opt_billingAddress = None,
        opt_total = None,
        opt_status = chain rv opt_status,
        opt_paymentMethod = None\<rparr> g \<and>
   (opt_email uo = Some em \<and> em \<noteq> [] \<longrightarrow> email (fst (createUser fk (Some uo) g)) = em) \<and>
   (opt_password uo = Some pw \<and> pw \<noteq> [] \<longrightarrow>
      password (fst (createUser fk (Some uo) g)) = pw) \<and>
   (opt_firstName uo = Some fnm \<and> fnm \<noteq> [] \<longrightarrow>
      firstName (fst (createUser fk (Some uo) g)) = fnm) \<and>
   (opt_lastName uo = Some lnm \<and> lnm \<noteq> [] \<longrightarrow>
      lastName (fst (createUser fk (Some uo) g)) = lnm) \<and>
   (opt_phone uo = Some ph \<and> ph \<noteq> [] \<longrightarrow>
      phone (fst (createUser fk (Some uo) g)) = Some ph) \<and>
   (opt_street ao = Some sr \<and> sr \<noteq> [] \<longrightarrow>
      street (fst (createAddress fk (Some ao) g)) = sr) \<and>
   (opt_city ao = Some ci \<and> ci \<noteq> [] \<longrightarrow> city (fst (createAddress fk (Some ao) g)) = ci) \<and>
   (opt_state ao = Some sa \<and> sa \<noteq> [] \<longrightarrow> state (fst (createAddress fk (Some ao) g)) = sa) \<and>
   (opt_zipCode ao = Some zi \<and> zi \<noteq> [] \<longrightarrow>
      zipCode (fst (createAddress fk (Some ao) g)) = zi) \<and>
   (opt_country ao = Some co \<and> co \<noteq> [] \<longrightarrow>
      country (fst (createAddress fk (Some ao) g)) = co) \<and>
   (opt_name po = Some na \<and> na \<noteq> [] \<longrightarrow> name (fst (createProduct fk (Some po) g)) = na) \<and>
   (opt_price po = Some pr \<and> \<not> is_zero pr \<and> pr \<noteq> NaN \<longrightarrow>
      price (fst (createProduct fk (Some po) g)) = pr) \<and>
   (opt_category po = Some ca \<and> ca \<noteq> [] \<longrightarrow>
      category (fst (createProduct fk (Some po) g)) = ca) \<and>
   (opt_inStock po = Some ins \<longrightarrow> inStock (fst (createProduct fk (Some po) g)) = ins) \<and>
   (opt_user oo = Some us \<longrightarrow> order_user (fst (createOrder fk (Some oo) g)) = us) \<and>
   (opt_items oo = Some its \<longrightarrow> items (fst (createOrder fk (Some oo) g)) = its) \<and>
   (opt_shippingAddress oo = Some sh \<longrightarrow>
      shippingAddress (fst (createOrder fk (Some oo) g)) = sh) \<and>
   (opt_status oo = Some st \<longrightarrow> status (fst (createOrder fk (Some oo) g)) = st)"
proof -
  have price: "opt_price po = Some pr \<and> \<not> is_zero pr \<and> pr \<noteq> NaN \<longrightarrow>
      price (fst (createProduct fk (Some po) g)) = pr"
    using createProduct_fields(2) [of po pr fk g] by (simp add: truthy_number_def)
  show ?thesis
    by (intro conjI create_builders price; intro impI; (elim conjE)?)
       (rule createUser_fields createAddress_fields createProduct_fields createOrder_fields;
        assumption)+
qed

text \<open>
  On the concrete generator: an override record with every field of a user set to a
  non-empty string gives that user and draws nothing; a product override with forwarded
  fields that pass comes back with them; and an override record whose only field is an
  empty e-mail address gives the user of a fresh builder.
\<close>

theorem factory_forwards_truthy_overrides_witness:
  "createUser demo_faker
     (Some \<lparr>opt_firstName = Some ''Grace'', opt_lastName = Some ''Hopper'',
            opt_email = Some ''grace@example.com'', opt_password = Some ''Cobol59!'',
            opt_phone = Some ''555-000-1111''\<rparr>) 0 =
     (\<lparr>firstName = ''Grace'', lastName = ''Hopper'', email = ''grace@example.com'',
       password = ''Cobol59!'', phone = Some ''555-000-1111''\<rparr>, 0) \<and>
   name (fst (createProduct demo_faker
     (Some (new_ProductBuilder\<lparr>opt_name := Some ''Desk'', opt_price := Some PosInf,
        opt_category := Some ''Office'', opt_inStock := Some False\<rparr>)) 0)) = ''Desk'' \<and>
   price (fst (createProduct demo_faker
     (Some (new_ProductBuilder\<lparr>opt_name := Some ''Desk'', opt_price := Some PosInf,
        opt_category := Some ''Office'', opt_inStock := Some False\<rparr>)) 0)) = PosInf \<and>
   inStock (fst (createProduct demo_faker
     (Some (new_ProductBuilder\<lparr>opt_name := Some ''Desk'', opt_price := Some PosInf,
        opt_category := Some ''Office'', opt_inStock := Some False\<rparr>)) 0)) = False \<and>
   createUser demo_faker (Some (new_UserBuilder\<lparr>opt_email := Some []\<rparr>)) 0 =
     UserBuilder_build demo_faker new_UserBuilder 0"
proof -
  let ?uo = "\<lparr>opt_firstName = Some ''Grace'', opt_lastName = Some ''Hopper'',
            opt_email = Some ''grace@example.com'', opt_password = Some ''Cobol59!'',
            opt_phone = Some ''555-000-1111''\<rparr>"
  let ?po = "new_ProductBuilder\<lparr>opt_name := Some ''Desk'', opt_price := Some PosInf,
        opt_category := Some ''Office'', opt_inStock := Some False\<rparr>"
  note fact = factory_forwards_truthy_overrides
    [where fk = demo_faker and g = 0 and uo = ?uo
       and em = "''grace@example.com''" and pw = "''Cobol59!''" and fnm = "''Grace''"
       and lnm = "''Hopper''" and ph = "''555-000-1111''"
       and po = ?po and na = "''Desk''" and pr = PosInf and ca = "''Office''" and ins = False
       and ov = "Some (new_UserBuilder\<lparr>opt_email := Some []\<rparr>)"
       and av = None and pv = None and rv = None and ao = new_AddressBuilder
       and sr = "[]" and ci = "[]" and sa = "[]" and zi = "[]" and co = "[]"
       and oo = new_OrderBuilder and us = "fst (default_user demo_faker 0)" and its = "[]"
       and sh = "fst (default_shippingAddress demo_faker 0)" and st = Pending]
  have product: "name (fst (createProduct demo_faker (Some ?po) 0)) = ''Desk''"
    "price (fst (createProduct demo_faker (Some ?po) 0)) = PosInf"
    "inStock (fst (createProduct demo_faker (Some ?po) 0)) = False"
    using fact by (simp_all add: new_ProductBuilder_def)
  have user: "createUser demo_faker (Some ?uo) 0 =
     (\<lparr>firstName = ''Grace'', lastName = ''Hopper'', email = ''grace@example.com'',
       password = ''Cobol59!'', phone = Some ''555-000-1111''\<rparr>, 0)"
    by (simp add: createUser_def chain_def if_truthy_def truthy_string_def
        UserBuilder_build_def UserBuilder_withEmail_def UserBuilder_withPassword_def
        UserBuilder_withFirstName_def UserBuilder_withLastName_def UserBuilder_withPhone_def
        new_UserBuilder_def)
  have empty: "createUser demo_faker (Some (new_UserBuilder\<lparr>opt_email := Some []\<rparr>)) 0 =
     UserBuilder_build demo_faker new_UserBuilder 0"
    using fact by (simp add: chain_def passes_def truthy_string_def new_UserBuilder_def)
  from product user empty show ?thesis
    by blast
qed

text \<open>
  The claim as first stated, for every override record, fails on a field that is present
  but falsy: \<open>createUser({ email: '' })\<close> returns a generated e-mail address, and
  \<open>createUser({ phone: '' })\<close> a user without a phone.
\<close>

theorem factory_falsy_override_counterexample:
  "email (fst (createUser demo_faker (Some (new_UserBuilder\<lparr>opt_email := Some []\<rparr>)) 0)) \<noteq> [] \<and>
   phone (fst (createUser demo_faker (Some (new_UserBuilder\<lparr>opt_phone := Some []\<rparr>)) 0))
     \<noteq> Some []"
  by (simp add: createUser_def chain_def if_truthy_def truthy_string_def UserBuilder_build_def
      new_UserBuilder_def demo_faker_def Let_def)

text \<open>
  Fields that a factory method does not forward have no effect on its result:
  \<open>createProduct\<close> never reads \<open>description\<close>, \<open>sku\<close> or \<open>quantity\<close>, and \<open>createOrder\<close>
  never reads \<open>orderNumber\<close>, \<open>billingAddress\<close>, \<open>total\<close> or \<open>paymentMethod\<close>.
\<close>

lemma createProduct_unread_fields:
  "createProduct fk (Some (ov\<lparr>opt_description := x, opt_sku := y, opt_quantity := z\<rparr>)) g =
   createProduct fk (Some ov) g"
  by (simp add: createProduct_def chain_def)

lemma createOrder_unread_fields:
  "createOrder fk (Some (ov\<lparr>opt_orderNumber := x, opt_billingAddress := y, opt_total := z,
      opt_paymentMethod := w\<rparr>)) g = createOrder fk (Some ov) g"
  by (simp add: createOrder_def chain_def)

section \<open>Overrides and defaults of \<open>build()\<close>\<close>

lemma last_given_foldl:
  assumes "\<And>c b. sel (step b c) = (case given c of Some v \<Rightarrow> Some v | None \<Rightarrow> sel b)"
  shows "sel (foldl step b cs) =
    (case last_given given cs of Some v \<Rightarrow> Some v | None \<Rightarrow> sel b)"
proof (induction cs arbitrary: b)
  case Nil
  show ?case by simp
next
  case (Cons c cs)
  show ?case
    by (simp add: Cons.IH assms split: option.splits)
qed

lemma user_chain_fields:
  "opt_firstName (UserBuilder_chain cs) = last_given given_firstName cs"
  "opt_lastName (UserBuilder_chain cs) = last_given given_lastName cs"
  "opt_email (UserBuilder_chain cs) = last_given given_email cs"
  "opt_password (UserBuilder_chain cs) = last_given given_password cs"
  "opt_phone (UserBuilder_chain cs) = last_given given_phone cs"
proof -
  have step:
    "opt_firstName (UserBuilder_call c b) =
       (case given_firstName c of Some v \<Rightarrow> Some v | None \<Rightarrow> opt_firstName b)"
    "opt_lastName (UserBuilder_call c b) =
       (case given_lastName c of Some v \<Rightarrow> Some v | None \<Rightarrow> opt_lastName b)"
    "opt_email (UserBuilder_call c b) =
       (case given_email c of Some v \<Rightarrow> Some v | None \<Rightarrow> opt_email b)"
    "opt_password (UserBuilder_call c b) =
       (case given_password c of Some v \<Rightarrow> Some v | None \<Rightarrow> opt_password b)"
    "opt_phone (UserBuilder_call c b) =
       (case given_phone c of Some v \<Rightarrow> Some v | None \<Rightarrow> opt_phone b)"
    for c b
    by (cases c; simp add:
        given_firstName_def given_lastName_def given_email_def given_password_def
        given_phone_def UserBuilder_withFirstName_def UserBuilder_withLastName_def
        UserBuilder_withEmail_def UserBuilder_withPassword_def UserBuilder_withPhone_def)+
  note lg = last_given_foldl [where step = "\<lambda>b c. UserBuilder_call c b"
      and b = new_UserBuilder and cs = cs]
  show "opt_firstName (UserBuilder_chain cs) = last_given given_firstName cs"
    using lg [where sel = opt_firstName and given = given_firstName, OF step(1)]
    by (simp add: UserBuilder_chain_def new_UserBuilder_def split: option.splits)
  show "opt_lastName (UserBuilder_chain cs) = last_given given_lastName cs"
    using lg [where sel = opt_lastName and given = given_lastName, OF step(2)]
    by (simp add: UserBuilder_chain_def new_UserBuilder_def split: option.splits)
  show "opt_email (UserBuilder_chain cs) = last_given given_email cs"
    using lg [where sel = opt_email and given = given_email, OF step(3)]
    by (simp add: UserBuilder_chain_def new_UserBuilder_def split: option.splits)
  show "opt_password (UserBuilder_chain cs) = last_given given_password cs"
    using lg [where sel = opt_password and given = given_password, OF step(4)]
    by (simp add: UserBuilder_chain_def new_UserBuilder_def split: option.splits)
  show "opt_phone (UserBuilder_chain cs) = last_given given_phone cs"
    using lg [where sel = opt_phone and given = given_phone, OF step(5)]
    by (simp add: UserBuilder_chain_def new_UserBuilder_def split: option.splits)
qed

lemma address_chain_fields:
  "opt_street (AddressBuilder_chain cs) = last_given given_street cs"
  "opt_city (AddressBuilder_chain cs) = last_given given_city cs"
  "opt_state (AddressBuilder_chain cs) = last_given given_state cs"
  "opt_zipCode (AddressBuilder_chain cs) = last_given given_zipCode cs"
  "opt_country (AddressBuilder_chain cs) = last_given given_country cs"
proof -
  have step:
    "opt_street (AddressBuilder_call c b) =
       (case given_street c of Some v \<Rightarrow> Some v | None \<Rightarrow> opt_street b)"
    "opt_city (AddressBuilder_call c b) =
       (case given_city c of Some v \<Rightarrow> Some v | None \<Rightarrow> opt_city b)"
    "opt_state (AddressBuilder_call c b) =
       (case given_state c of Some v \<Rightarrow> Some v | None \<Rightarrow> opt_state b)"
    "opt_zipCode (AddressBuilder_call c b) =
       (case given_zipCode c of Some v \<Rightarrow> Some v | None \<Rightarrow> opt_zipCode b)"
    "opt_country (AddressBuilder_call c b) =
       (case given_country c of Some v \<Rightarrow> Some v | None \<Rightarrow> opt_country b)"
    for c b
    by (cases c; simp add:
        given_street_def given_city_def given_state_def given_zipCode_def given_country_def
        AddressBuilder_withStreet_def AddressBuilder_withCity_def
        AddressBuilder_withState_def AddressBuilder_withZipCode_def
        AddressBuilder_withCountry_def)+
  note lg = last_given_foldl [where step = "\<lambda>b c. AddressBuilder_call c b"
      and b = new_AddressBuilder and cs = cs]
  show "opt_street (AddressBuilder_chain cs) = last_given given_street cs"
    using lg [where sel = opt_street and given = given_street, OF step(1)]
    by (simp add: AddressBuilder_chain_def new_AddressBuilder_def split: option.splits)
  show "opt_city (AddressBuilder_chain cs) = last_given given_city cs"
    using lg [where sel = opt_city and given = given_city, OF step(2)]
    by (simp add: AddressBuilder_chain_def new_AddressBuilder_def split: option.splits)
  show "opt_state (AddressBuilder_chain cs) = last_given given_state cs"
    using lg [where sel = opt_state and given = given_state, OF step(3)]
    by (simp add: AddressBuilder_chain_def new_AddressBuilder_def split: option.splits)
  show "opt_zipCode (AddressBuilder_chain cs) = last_given given_zipCode cs"
    using lg [where sel = opt_zipCode and given = given_zipCode, OF step(4)]
    by (simp add: AddressBuilder_chain_def new_AddressBuilder_def split: option.splits)
  show "opt_country (AddressBuilder_chain cs) = last_given given_country cs"
    using lg [where sel = opt_country and given = given_country, OF step(5)]
    by (simp add: AddressBuilder_chain_def new_AddressBuilder_def split: option.splits)
qed

lemma product_chain_fields:
  "opt_name (ProductBuilder_chain cs) = last_given given_name cs"
  "opt_description (ProductBuilder_chain cs) = last_given given_description cs"
  "opt_price (ProductBuilder_chain cs) = last_given given_price cs"
  "opt_sku (ProductBuilder_chain cs) = last_given given_sku cs"
  "opt_category (ProductBuilder_chain cs) = last_given given_category cs"
  "opt_inStock (ProductBuilder_chain cs) = last_given given_inStock cs"
  "opt_quantity (ProductBuilder_chain cs) = last_given given_quantity cs"
proof -
  have step:
    "opt_name (ProductBuilder_call c b) =
       (case given_name c of Some v \<Rightarrow> Some v | None \<Rightarrow> opt_name b)"
    "opt_description (ProductBuilder_call c b) =
       (case given_description c of Some v \<Rightarrow> Some v | None \<Rightarrow> opt_description b)"
    "opt_price (ProductBuilder_call c b) =
       (case given_price c of Some v \<Rightarrow> Some v | None \<Rightarrow> opt_price b)"
    "opt_sku (ProductBuilder_call c b) =
       (case given_sku c of Some v \<Rightarrow> Some v | None \<Rightarrow> opt_sku b)"
    "opt_category (ProductBuilder_call c b) =
       (case given_category c of Some v \<Rightarrow> Some v | None \<Rightarrow> opt_category b)"
    "opt_inStock (ProductBuilder_call c b) =
       (case given_inStock c of Some v \<Rightarrow> Some v | None \<Rightarrow> opt_inStock b)"
    "opt_quantity (ProductBuilder_call c b) =
       (case given_quantity c of Some v \<Rightarrow> Some v | None \<Rightarrow> opt_quantity b)"
    for c b
    by (cases c; simp add:
        given_name_def given_description_def given_price_def given_sku_def
        given_category_def given_inStock_def given_quantity_def ProductBuilder_withName_def
        ProductBuilder_withDescription_def ProductBuilder_withPrice_def
        ProductBuilder_withSku_def ProductBuilder_withCategory_def
        ProductBuilder_withStockStatus_def ProductBuilder_withQuantity_def)+
  note lg = last_given_foldl [where step = "\<lambda>b c. ProductBuilder_call c b"
      and b = new_ProductBuilder and cs = cs]
  show "opt_name (ProductBuilder_chain cs) = last_given given_name cs"
    using lg [where sel = opt_name and given = given_name, OF step(1)]
    by (simp add: ProductBuilder_chain_def new_ProductBuilder_def split: option.splits)
  show "opt_description (ProductBuilder_chain cs) = last_given given_description cs"
    using lg [where sel = opt_description and given = given_description, OF step(2)]
    by (simp add: ProductBuilder_chain_def new_ProductBuilder_def split: option.splits)
  show "opt_price (ProductBuilder_chain cs) = last_given given_price cs"
    using lg [where sel = opt_price and given = given_price, OF step(3)]
    by (simp add: ProductBuilder_chain_def new_ProductBuilder_def split: option.splits)
  show "opt_sku (ProductBuilder_chain cs) = last_given given_sku cs"
    using lg [where sel = opt_sku and given = given_sku, OF step(4)]
    by (simp add: ProductBuilder_chain_def new_ProductBuilder_def split: option.splits)
  show "opt_category (ProductBuilder_chain cs) = last_given given_category cs"
    using lg [where sel = opt_category and given = given_category, OF step(5)]
    by (simp add: ProductBuilder_chain_def new_ProductBuilder_def split: option.splits)
  show "opt_inStock (ProductBuilder_chain cs) = last_given given_inStock cs"
    using lg [where sel = opt_inStock and given = given_inStock, OF step(6)]
    by (simp add: ProductBuilder_chain_def new_ProductBuilder_def split: option.splits)
  show "opt_quantity (ProductBuilder_chain cs) = last_given given_quantity cs"
    using lg [where sel = opt_quantity and given = given_quantity, OF step(7)]
    by (simp add: ProductBuilder_chain_def new_ProductBuilder_def split: option.splits)
qed

lemma order_chain_fields:
  "opt_orderNumber (OrderBuilder_chain cs) = last_given given_orderNumber cs"
  "opt_user (OrderBuilder_chain cs) = last_given given_user cs"
  "opt_items (OrderBuilder_chain cs) = last_given given_items cs"
  "opt_shippingAddress (OrderBuilder_chain cs) = last_given given_shippingAddress cs"
  "opt_billingAddress (OrderBuilder_chain cs) = last_given given_billingAddress cs"
  "opt_status (OrderBuilder_chain cs) = last_given given_status cs"
  "opt_paymentMethod (OrderBuilder_chain cs) = last_given given_paymentMethod cs"
proof -
  have step:
    "opt_orderNumber (OrderBuilder_call c b) =
       (case given_orderNumber c of Some v \<Rightarrow> Some v | None \<Rightarrow> opt_orderNumber b)"
    "opt_user (OrderBuilder_call c b) =
       (case given_user c of Some v \<Rightarrow> Some v | None \<Rightarrow> opt_user b)"
    "opt_items (OrderBuilder_call c b) =
       (case given_items c of Some v \<Rightarrow> Some v | None \<Rightarrow> opt_items b)"
    "opt_shippingAddress (OrderBuilder_call c b) =
       (case given_shippingAddress c of Some v \<Rightarrow> Some v | None \<Rightarrow> opt_shippingAddress b)"
    "opt_billingAddress (OrderBuilder_call c b) =
       (case given_billingAddress c of Some v \<Rightarrow> Some v | None \<Rightarrow> opt_billingAddress b)"
    "opt_status (OrderBuilder_call c b) =
       (case given_status c of Some v \<Rightarrow> Some v | None \<Rightarrow> opt_status b)"
    "opt_paymentMethod (OrderBuilder_call c b) =
       (case given_paymentMethod c of Some v \<Rightarrow> Some v | None \<Rightarrow> opt_paymentMethod b)"
    for c b
    by (cases c; simp add:
        given_orderNumber_def given_user_def given_items_def given_shippingAddress_def
        given_billingAddress_def given_status_def given_paymentMethod_def
        OrderBuilder_withOrderNumber_def OrderBuilder_withUser_def
        OrderBuilder_withItems_def OrderBuilder_withShippingAddress_def
        OrderBuilder_withBillingAddress_def OrderBuilder_withStatus_def
        OrderBuilder_withPaymentMethod_def)+
  note lg = last_given_foldl [where step = "\<lambda>b c. OrderBuilder_call c b"
      and b = new_OrderBuilder and cs = cs]
  show "opt_orderNumber (OrderBuilder_chain cs) = last_given given_orderNumber cs"
    using lg [where sel = opt_orderNumber and given = given_orderNumber, OF step(1)]
    by (simp add: OrderBuilder_chain_def new_OrderBuilder_def split: option.splits)
  show "opt_user (OrderBuilder_chain cs) = last_given given_user cs"
    using lg [where sel = opt_user and given = given_user, OF step(2)]
    by (simp add: OrderBuilder_chain_def new_OrderBuilder_def split: option.splits)
  show "opt_items (OrderBuilder_chain cs) = last_given given_items cs"
    using lg [where sel = opt_items and given = given_items, OF step(3)]
    by (simp add: OrderBuilder_chain_def new_OrderBuilder_def split: option.splits)
  show "opt_shippingAddress (OrderBuilder_chain cs) = last_given given_shippingAddress cs"
    using lg [where sel = opt_shippingAddress and given = given_shippingAddress, OF step(4)]
    by (simp add: OrderBuilder_chain_def new_OrderBuilder_def split: option.splits)
  show "opt_billingAddress (OrderBuilder_chain cs) = last_given given_billingAddress cs"
    using lg [where sel = opt_billingAddress and given = given_billingAddress, OF step(5)]
    by (simp add: OrderBuilder_chain_def new_OrderBuilder_def split: option.splits)
  show "opt_status (OrderBuilder_chain cs) = last_given given_status cs"
    using lg [where sel = opt_status and given = given_status, OF step(6)]
    by (simp add: OrderBuilder_chain_def new_OrderBuilder_def split: option.splits)
  show "opt_paymentMethod (OrderBuilder_chain cs) = last_given given_paymentMethod cs"
    using lg [where sel = opt_paymentMethod and given = given_paymentMethod, OF step(7)]
    by (simp add: OrderBuilder_chain_def new_OrderBuilder_def split: option.splits)
qed

lemma user_build_fields:
  assumes "generates_nonempty fk"
  shows "(case opt_firstName b of Some v \<Rightarrow> firstName (fst (UserBuilder_build fk b g)) = v
          | None \<Rightarrow> firstName (fst (UserBuilder_build fk b g)) \<noteq> [] \<and>
              (\<exists>h. firstName (fst (UserBuilder_build fk b g)) = fst (person_firstName fk h)))"
    and "(case opt_lastName b of Some v \<Rightarrow> lastName (fst (UserBuilder_build fk b g)) = v
          | None \<Rightarrow> lastName (fst (UserBuilder_build fk b g)) \<noteq> [] \<and>
              (\<exists>h. lastName (fst (UserBuilder_build fk b g)) = fst (person_lastName fk h)))"
    and "(case opt_email b of Some v \<Rightarrow> email (fst (UserBuilder_build fk b g)) = v
          | None \<Rightarrow> email (fst (UserBuilder_build fk b g)) \<noteq> [] \<and>
              (\<exists>h. email (fst (UserBuilder_build fk b g)) = fst (internet_email fk h)))"
    and "(case opt_password b of Some v \<Rightarrow> password (fst (UserBuilder_build fk b g)) = v
          | None \<Rightarrow> password (fst (UserBuilder_build fk b g)) \<noteq> [] \<and>
              (\<exists>h. password (fst (UserBuilder_build fk b g)) =
                 fst (internet_password fk (Some 12) h)))"
    and "phone (fst (UserBuilder_build fk b g)) = opt_phone b"
  using assms
  by (auto simp add: generates_nonempty_def UserBuilder_build_def Let_def split_beta fst_nullish
      split: option.splits)

lemma address_build_fields:
  assumes "generates_nonempty fk"
  shows "(case opt_street b of Some v \<Rightarrow> street (fst (AddressBuilder_build fk b g)) = v
          | None \<Rightarrow> street (fst (AddressBuilder_build fk b g)) \<noteq> [] \<and>
              (\<exists>h. street (fst (AddressBuilder_build fk b g)) =
                 fst (location_streetAddress fk h)))"
    and "(case opt_city b of Some v \<Rightarrow> city (fst (AddressBuilder_build fk b g)) = v
          | None \<Rightarrow> city (fst (AddressBuilder_build fk b g)) \<noteq> [] \<and>
              (\<exists>h. city (fst (AddressBuilder_build fk b g)) = fst (location_city fk h)))"
    and "(case opt_state b of Some v \<Rightarrow> state (fst (AddressBuilder_build fk b g)) = v
          | None \<Rightarrow> state (fst (AddressBuilder_build fk b g)) \<noteq> [] \<and>
              (\<exists>h. state (fst (AddressBuilder_build fk b g)) =
                 fst (location_state fk False h)))"
    and "(case opt_zipCode b of Some v \<Rightarrow> zipCode (fst (AddressBuilder_build fk b g)) = v
          | None \<Rightarrow> zipCode (fst (AddressBuilder_build fk b g)) \<noteq> [] \<and>
              (\<exists>h. zipCode (fst (AddressBuilder_build fk b g)) = fst (location_zipCode fk h)))"
    and "(case opt_country b of Some v \<Rightarrow> country (fst (AddressBuilder_build fk b g)) = v
          | None \<Rightarrow> country (fst (AddressBuilder_build fk b g)) \<noteq> [] \<and>
              (\<exists>h. country (fst (AddressBuilder_build fk b g)) = fst (location_country fk h)))"
  using assms
  by (auto simp add: generates_nonempty_def AddressBuilder_build_def Let_def split_beta
      fst_nullish split: option.splits)

lemma product_build_fields:
  assumes "generates_nonempty fk"
  shows "(case opt_name b of Some v \<Rightarrow> name (fst (ProductBuilder_build fk b g)) = v
          | None \<Rightarrow> name (fst (ProductBuilder_build fk b g)) \<noteq> [] \<and>
              (\<exists>h. name (fst (ProductBuilder_build fk b g)) = fst (commerce_productName fk h)))"
    and "(case opt_description b of
            Some v \<Rightarrow> description (fst (ProductBuilder_build fk b g)) = v
          | None \<Rightarrow> description (fst (ProductBuilder_build fk b g)) \<noteq> [] \<and>
              (\<exists>h. description (fst (ProductBuilder_build fk b g)) =
                 fst (commerce_productDescription fk h)))"
    and "(case opt_price b of Some v \<Rightarrow> price (fst (ProductBuilder_build fk b g)) = v
          | None \<Rightarrow> (\<exists>h. price (fst (ProductBuilder_build fk b g)) =
                 fst (price_draw fk (js_of_int 10) (js_of_int 1000) h)))"
    and "(case opt_sku b of Some v \<Rightarrow> sku (fst (ProductBuilder_build fk b g)) = v
          | None \<Rightarrow> sku (fst (ProductBuilder_build fk b g)) \<noteq> [] \<and>
              (\<exists>h. sku (fst (ProductBuilder_build fk b g)) = fst (upper_alphanumeric fk 10 h)))"
    and "(case opt_category b of Some v \<Rightarrow> category (fst (ProductBuilder_build fk b g)) = v
          | None \<Rightarrow> category (fst (ProductBuilder_build fk b g)) \<noteq> [] \<and>
              (\<exists>h. category (fst (ProductBuilder_build fk b g)) =
                 fst (commerce_department fk h)))"
    and "(case opt_inStock b of Some v \<Rightarrow> inStock (fst (ProductBuilder_build fk b g)) = v
          | None \<Rightarrow> (\<exists>h. inStock (fst (ProductBuilder_build fk b g)) =
                 fst (datatype_boolean fk h)))"
    and "quantity (fst (ProductBuilder_build fk b g)) = opt_quantity b"
proof -
  have sku: "fst (upper_alphanumeric fk 10 h) \<noteq> []" for h
    using assms by (simp add: generates_nonempty_def upper_alphanumeric_def split_beta
        toUpperCase_empty)
  show "(case opt_name b of Some v \<Rightarrow> name (fst (ProductBuilder_build fk b g)) = v
          | None \<Rightarrow> name (fst (ProductBuilder_build fk b g)) \<noteq> [] \<and>
              (\<exists>h. name (fst (ProductBuilder_build fk b g)) = fst (commerce_productName fk h)))"
    and "(case opt_description b of
            Some v \<Rightarrow> description (fst (ProductBuilder_build fk b g)) = v
          | None \<Rightarrow> description (fst (ProductBuilder_build fk b g)) \<noteq> [] \<and>
              (\<exists>h. description (fst (ProductBuilder_build fk b g)) =
                 fst (commerce_productDescription fk h)))"
    and "(case opt_price b of Some v \<Rightarrow> price (fst (ProductBuilder_build fk b g)) = v
          | None \<Rightarrow> (\<exists>h. price (fst (ProductBuilder_build fk b g)) =
                 fst (price_draw fk (js_of_int 10) (js_of_int 1000) h)))"
    and "(case opt_sku b of Some v \<Rightarrow> sku (fst (ProductBuilder_build fk b g)) = v
          | None \<Rightarrow> sku (fst (ProductBuilder_build fk b g)) \<noteq> [] \<and>
              (\<exists>h. sku (fst (ProductBuilder_build fk b g)) = fst (upper_alphanumeric fk 10 h)))"
    and "(case opt_category b of Some v \<Rightarrow> category (fst (ProductBuilder_build fk b g)) = v
          | None \<Rightarrow> category (fst (ProductBuilder_build fk b g)) \<noteq> [] \<and>
              (\<exists>h. category (fst (ProductBuilder_build fk b g)) =
                 fst (commerce_department fk h)))"
    and "(case opt_inStock b of Some v \<Rightarrow> inStock (fst (ProductBuilder_build fk b g)) = v
          | None \<Rightarrow> (\<exists>h. inStock (fst (ProductBuilder_build fk b g)) =
                 fst (datatype_boolean fk h)))"
    and "quantity (fst (ProductBuilder_build fk b g)) = opt_quantity b"
    using assms sku
    by (auto simp add: generates_nonempty_def ProductBuilder_build_def Let_def split_beta
        fst_nullish split: option.splits)
qed

lemma default_user_nonempty:
  assumes "generates_nonempty fk"
  shows "firstName (fst (default_user fk h)) \<noteq> []" "lastName (fst (default_user fk h)) \<noteq> []"
    "email (fst (default_user fk h)) \<noteq> []" "password (fst (default_user fk h)) \<noteq> []"
  using assms by (simp_all add: generates_nonempty_def default_user_def Let_def split_beta)

lemma default_address_nonempty:
  assumes "generates_nonempty fk"
  shows "street (fst (default_shippingAddress fk h)) \<noteq> []"
    "city (fst (default_shippingAddress fk h)) \<noteq> []"
    "state (fst (default_shippingAddress fk h)) \<noteq> []"
    "zipCode (fst (default_shippingAddress fk h)) \<noteq> []"
    "country (fst (default_shippingAddress fk h)) = ''United States''"
  using assms
  by (simp_all add: generates_nonempty_def default_shippingAddress_def Let_def split_beta)

lemma default_items_nonempty:
  assumes "generates_nonempty fk"
  shows "list_all (\<lambda>it. name (item_product it) \<noteq> [] \<and> description (item_product it) \<noteq> [] \<and>
            sku (item_product it) \<noteq> [] \<and> category (item_product it) \<noteq> [])
          (fst (default_items fk h))"
  using assms
  by (simp add: generates_nonempty_def default_items_def Let_def split_beta
      upper_alphanumeric_def toUpperCase_empty)

lemma order_build_fields:
  assumes "generates_nonempty fk"
  shows "(case opt_orderNumber b of
            Some v \<Rightarrow> orderNumber (fst (OrderBuilder_build fk b g)) = v
          | None \<Rightarrow> orderNumber (fst (OrderBuilder_build fk b g)) \<noteq> [] \<and>
              (\<exists>h. orderNumber (fst (OrderBuilder_build fk b g)) =
                 fst (default_orderNumber fk h)))"
    and "(case opt_user b of Some v \<Rightarrow> order_user (fst (OrderBuilder_build fk b g)) = v
          | None \<Rightarrow> (\<exists>h. order_user (fst (OrderBuilder_build fk b g)) =
                 fst (default_user fk h)) \<and>
              firstName (order_user (fst (OrderBuilder_build fk b g))) \<noteq> [] \<and>
              lastName (order_user (fst (OrderBuilder_build fk b g))) \<noteq> [] \<and>
              email (order_user (fst (OrderBuilder_build fk b g))) \<noteq> [] \<and>
              password (order_user (fst (OrderBuilder_build fk b g))) \<noteq> [])"
    and "(case opt_items b of Some v \<Rightarrow> items (fst (OrderBuilder_build fk b g)) = v
          | None \<Rightarrow> items (fst (OrderBuilder_build fk b g)) \<noteq> [] \<and>
              (\<exists>h. items (fst (OrderBuilder_build fk b g)) = fst (default_items fk h)) \<and>
              list_all (\<lambda>it. name (item_product it) \<noteq> [] \<and>
                  description (item_product it) \<noteq> [] \<and> sku (item_product it) \<noteq> [] \<and>
                  category (item_product it) \<noteq> [])
                (items (fst (OrderBuilder_build fk b g))))"
    and "(case opt_shippingAddress b of
            Some v \<Rightarrow> shippingAddress (fst (OrderBuilder_build fk b g)) = v
          | None \<Rightarrow> (\<exists>h. shippingAddress (fst (OrderBuilder_build fk b g)) =
                 fst (default_shippingAddress fk h)) \<and>
              street (shippingAddress (fst (OrderBuilder_build fk b g))) \<noteq> [] \<and>
              city (shippingAddress (fst (OrderBuilder_build fk b g))) \<noteq> [] \<and>
              state (shippingAddress (fst (OrderBuilder_build fk b g))) \<noteq> [] \<and>
              zipCode (shippingAddress (fst (OrderBuilder_build fk b g))) \<noteq> [] \<and>
              country (shippingAddress (fst (OrderBuilder_build fk b g))) = ''United States'')"
    and "billingAddress (fst (OrderBuilder_build fk b g)) = opt_billingAddress b"
    and "(case opt_status b of Some v \<Rightarrow> status (fst (OrderBuilder_build fk b g)) = v
          | None \<Rightarrow> status (fst (OrderBuilder_build fk b g)) = Pending)"
    and "(case opt_paymentMethod b of
            Some v \<Rightarrow> paymentMethod (fst (OrderBuilder_build fk b g)) = v
          | None \<Rightarrow> paymentMethod (fst (OrderBuilder_build fk b g)) = ''Credit Card'')"
proof -
  have items_ne: "fst (default_items fk h) \<noteq> []" for h
    by (simp add: default_items_def Let_def split_beta)
  have number_ne: "fst (default_orderNumber fk h) \<noteq> []" for h
    by (simp add: default_orderNumber_def Let_def split_beta)
  note facts = default_user_nonempty [OF assms] default_address_nonempty [OF assms] items_ne
    number_ne default_items_nonempty [OF assms]
  show "(case opt_orderNumber b of
            Some v \<Rightarrow> orderNumber (fst (OrderBuilder_build fk b g)) = v
          | None \<Rightarrow> orderNumber (fst (OrderBuilder_build fk b g)) \<noteq> [] \<and>
              (\<exists>h. orderNumber (fst (OrderBuilder_build fk b g)) =
                 fst (default_orderNumber fk h)))"
    and "(case opt_user b of Some v \<Rightarrow> order_user (fst (OrderBuilder_build fk b g)) = v
          | None \<Rightarrow> (\<exists>h. order_user (fst (OrderBuilder_build fk b g)) =
                 fst (default_user fk h)) \<and>
              firstName (order_user (fst (OrderBuilder_build fk b g))) \<noteq> [] \<and>
              lastName (order_user (fst (OrderBuilder_build fk b g))) \<noteq> [] \<and>
              email (order_user (fst (OrderBuilder_build fk b g))) \<noteq> [] \<and>
              password (order_user (fst (OrderBuilder_build fk b g))) \<noteq> [])"
    and "(case opt_items b of Some v \<Rightarrow> items (fst (OrderBuilder_build fk b g)) = v
          | None \<Rightarrow> items (fst (OrderBuilder_build fk b g)) \<noteq> [] \<and>
              (\<exists>h. items (fst (OrderBuilder_build fk b g)) = fst (default_items fk h)) \<and>
              list_all (\<lambda>it. name (item_product it) \<noteq> [] \<and>
                  description (item_product it) \<noteq> [] \<and> sku (item_product it) \<noteq> [] \<and>
                  category (item_product it) \<noteq> [])
                (items (fst (OrderBuilder_build fk b g))))"
    and "(case opt_shippingAddress b of
            Some v \<Rightarrow> shippingAddress (fst (OrderBuilder_build fk b g)) = v
          | None \<Rightarrow> (\<exists>h. shippingAddress (fst (OrderBuilder_build fk b g)) =
                 fst (default_shippingAddress fk h)) \<and>
              street (shippingAddress (fst (OrderBuilder_build fk b g))) \<noteq> [] \<and>
              city (shippingAddress (fst (OrderBuilder_build fk b g))) \<noteq> [] \<and>
              state (shippingAddress (fst (OrderBuilder_build fk b g))) \<noteq> [] \<and>
              zipCode (shippingAddress (fst (OrderBuilder_build fk b g))) \<noteq> [] \<and>
              country (shippingAddress (fst (OrderBuilder_build fk b g))) = ''United States'')"
    and "billingAddress (fst (OrderBuilder_build fk b g)) = opt_billingAddress b"
    and "(case opt_status b of Some v \<Rightarrow> status (fst (OrderBuilder_build fk b g)) = v
          | None \<Rightarrow> status (fst (OrderBuilder_build fk b g)) = Pending)"
    and "(case opt_paymentMethod b of
            Some v \<Rightarrow> paymentMethod (fst (OrderBuilder_build fk b g)) = v
          | None \<Rightarrow> paymentMethod (fst (OrderBuilder_build fk b g)) = ''Credit Card'')"
    using facts
    by (auto simp add: OrderBuilder_build_def Let_def split_beta fst_nullish
        split: option.splits)
qed

text \<open>
  Claim C4. For each of the four builders and every list of override calls made on a
  fresh builder before \<open>build()\<close>: a field for which the list has a call of its mutator is
  returned with exactly the argument of the last such call; an optional field (\<open>phone\<close>,
  \<open>quantity\<close>, \<open>billingAddress\<close>) is returned as the calls leave it, undefined without a
  call; and every other field without a call is present, as a value that the library
  generates (or, for \<open>status\<close> and \<open>paymentMethod\<close>, the fixed default), a string among
  them being non-empty, also inside the default user and the default shipping address of
  an order, and the default item list being non-empty, with non-empty strings in its
  product; this given that the string generators of the library return non-empty strings. In particular
  \<open>new UserBuilder().withEmail('a@x.com').withPassword('P1').build()\<close> has that e-mail
  address and password, a non-empty first and last name, and no phone.
\<close>

theorem build_respects_overrides:
  assumes "generates_nonempty fk"
  shows
   "(let u = fst (UserBuilder_build fk (UserBuilder_chain ucs) g);
         a = fst (AddressBuilder_build fk (AddressBuilder_chain acs) g);
         p = fst (ProductBuilder_build fk (ProductBuilder_chain pcs) g);
         r = fst (OrderBuilder_build fk (OrderBuilder_chain ocs) g);
         w = fst (UserBuilder_build fk
               (UserBuilder_withPassword ''P1''
                 (UserBuilder_withEmail ''a@x.com'' new_UserBuilder)) g)
     in
      (case last_given given_firstName ucs of Some v \<Rightarrow> firstName u = v
       | None \<Rightarrow> firstName u \<noteq> [] \<and> (\<exists>h. firstName u = fst (person_firstName fk h))) \<and>
      (case last_given given_lastName ucs of Some v \<Rightarrow> lastName u = v
       | None \<Rightarrow> lastName u \<noteq> [] \<and> (\<exists>h. lastName u = fst (person_lastName fk h))) \<and>
      (case last_given given_email ucs of Some v \<Rightarrow> email u = v
       | None \<Rightarrow> email u \<noteq> [] \<and> (\<exists>h. email u = fst (internet_email fk h))) \<and>
      (case last_given given_password ucs of Some v \<Rightarrow> password u = v
       | None \<Rightarrow> password u \<noteq> [] \<and>
           (\<exists>h. password u = fst (internet_password fk (Some 12) h))) \<and>
      phone u = last_given given_phone ucs \<and>
      (case last_given given_street acs of Some v \<Rightarrow> street a = v
       | None \<Rightarrow> street a \<noteq> [] \<and> (\<exists>h. street a = fst (location_streetAddress fk h))) \<and>
      (case last_given given_city acs of Some v \<Rightarrow> city a = v
       | None \<Rightarrow> city a \<noteq> [] \<and> (\<exists>h. city a = fst (location_city fk h))) \<and>
      (case last_given given_state acs of Some v \<Rightarrow> state a = v
       | None \<Rightarrow> state a \<noteq> [] \<and> (\<exists>h. state a = fst (location_state fk False h))) \<and>
      (case last_given given_zipCode acs of Some v \<Rightarrow> zipCode a = v
       | None \<Rightarrow> zipCode a \<noteq> [] \<and> (\<exists>h. zipCode a = fst (location_zipCode fk h))) \<and>
      (case last_given given_country acs of Some v \<Rightarrow> country a = v
       | None \<Rightarrow> country a \<noteq> [] \<and> (\<exists>h. country a = fst (location_country fk h))) \<and>
      (case last_given given_name pcs of Some v \<Rightarrow> name p = v
       | None \<Rightarrow> name p \<noteq> [] \<and> (\<exists>h. name p = fst (commerce_productName fk h))) \<and>
      (case last_given given_description pcs of Some v \<Rightarrow> description p = v
       | None \<Rightarrow> description p \<noteq> [] \<and>
           (\<exists>h. description p = fst (commerce_productDescription fk h))) \<and>
      (case last_given given_price pcs of Some v \<Rightarrow> price p = v
       | None \<Rightarrow> (\<exists>h. price p = fst (price_draw fk (js_of_int 10) (js_of_int 1000) h))) \<and>
      (case last_given given_sku pcs of Some v \<Rightarrow> sku p = v
       | None \<Rightarrow> sku p \<noteq> [] \<and> (\<exists>h. sku p = fst (upper_alphanumeric fk 10 h))) \<and>
      (case last_given given_category pcs of Some v \<Rightarrow> category p = v
       | None \<Rightarrow> category p \<noteq> [] \<and> (\<exists>h. category p = fst (commerce_department fk h))) \<and>
      (case last_given given_inStock pcs of Some v \<Rightarrow> inStock p = v
       | None \<Rightarrow> (\<exists>h. inStock p = fst (datatype_boolean fk h))) \<and>
      quantity p = last_given given_quantity pcs \<and>
      (case last_given given_orderNumber ocs of Some v \<Rightarrow> orderNumber r = v
       | None \<Rightarrow> orderNumber r \<noteq> [] \<and>
           (\<exists>h. orderNumber r = fst (default_orderNumber fk h))) \<and>
      (case last_given given_user ocs of Some v \<Rightarrow> order_user r = v
       | None \<Rightarrow> (\<exists>h. order_user r = fst (default_user fk h)) \<and>
           firstName (order_user r) \<noteq> [] \<and> lastName (order_user r) \<noteq> [] \<and>
           email (order_user r) \<noteq> [] \<and> password (order_user r) \<noteq> []) \<and>
      (case last_given given_items ocs of Some v \<Rightarrow> items r = v
       | None \<Rightarrow> items r \<noteq> [] \<and> (\<exists>h. items r = fst (default_items fk h)) \<and>
           list_all (\<lambda>it. name (item_product it) \<noteq> [] \<and>
               description (item_product it) \<noteq> [] \<and> sku (item_product it) \<noteq> [] \<and>
               category (item_product it) \<noteq> [])
             (items r)) \<and>
      (case last_given given_shippingAddress ocs of Some v \<Rightarrow> shippingAddress r = v
       | None \<Rightarrow> (\<exists>h. shippingAddress r = fst (default_shippingAddress fk h)) \<and>
           street (shippingAddress r) \<noteq> [] \<and> city (shippingAddress r) \<noteq> [] \<and>
           state (shippingAddress r) \<noteq> [] \<and> zipCode (shippingAddress r) \<noteq> [] \<and>
           country (shippingAddress r) = ''United States'') \<and>
      billingAddress r = last_given given_billingAddress ocs \<and>
      (case last_given given_status ocs of Some v \<Rightarrow> status r = v
       | None \<Rightarrow> status r = Pending) \<and>
      (case last_given given_paymentMethod ocs of Some v \<Rightarrow> paymentMethod r = v
       | None \<Rightarrow> paymentMethod r = ''Credit Card'') \<and>
      email w = ''a@x.com'' \<and> password w = ''P1'' \<and> firstName w \<noteq> [] \<and> lastName w \<noteq> [] \<and>
      phone w = None)"
proof -
  let ?b = "UserBuilder_withPassword ''P1'' (UserBuilder_withEmail ''a@x.com'' new_UserBuilder)"
  have sel: "opt_email ?b = Some ''a@x.com''" "opt_password ?b = Some ''P1''"
    "opt_firstName ?b = None" "opt_lastName ?b = None" "opt_phone ?b = None"
    by (simp_all add: UserBuilder_withPassword_def UserBuilder_withEmail_def new_UserBuilder_def)
  have scenario:
    "email (fst (UserBuilder_build fk ?b g)) = ''a@x.com''"
    "password (fst (UserBuilder_build fk ?b g)) = ''P1''"
    "firstName (fst (UserBuilder_build fk ?b g)) \<noteq> []"
    "lastName (fst (UserBuilder_build fk ?b g)) \<noteq> []"
    "phone (fst (UserBuilder_build fk ?b g)) = None"
    using user_build_fields [OF assms, of ?b g] by (simp_all add: sel)
  note user = user_build_fields [OF assms, of "UserBuilder_chain ucs" g,
    unfolded user_chain_fields]
  note address = address_build_fields [OF assms, of "AddressBuilder_chain acs" g,
    unfolded address_chain_fields]
  note product = product_build_fields [OF assms, of "ProductBuilder_chain pcs" g,
    unfolded product_chain_fields]
  note order = order_build_fields [OF assms, of "OrderBuilder_chain ocs" g,
    unfolded order_chain_fields]
  show ?thesis
    unfolding Let_def
    by (intro conjI user address product order scenario)
qed

text \<open>
  On the concrete generator, whose strings are non-empty: the scenario of the claim
  evaluates to a full user, and a product built after \<open>withSku('OLD')\<close>, \<open>withQuantity(3)\<close>
  and \<open>withSku('SKU-1')\<close> has the sku of the last call and that quantity.
\<close>

theorem build_respects_overrides_witness:
  "generates_nonempty demo_faker \<and>
   fst (UserBuilder_build demo_faker
     (UserBuilder_chain [WithEmail ''a@x.com'', WithPassword ''P1'']) 0) =
     \<lparr>firstName = ''Ada'', lastName = ''Turing'', email = ''a@x.com'', password = ''P1'',
      phone = None\<rparr> \<and>
   sku (fst (ProductBuilder_build demo_faker
     (ProductBuilder_chain [WithSku ''OLD'', WithQuantity (js_of_int 3), WithSku ''SKU-1''])
     0)) = ''SKU-1'' \<and>
   quantity (fst (ProductBuilder_build demo_faker
     (ProductBuilder_chain [WithSku ''OLD'', WithQuantity (js_of_int 3), WithSku ''SKU-1''])
     0)) = Some (js_of_int 3)"
  using build_respects_overrides [OF demo_faker_nonempty,
      of "[WithEmail ''a@x.com'', WithPassword ''P1'']" 0 "[]"
         "[WithSku ''OLD'', WithQuantity (js_of_int 3), WithSku ''SKU-1'']" "[]"]
    demo_faker_nonempty
  by (simp add: Let_def given_firstName_def given_lastName_def given_email_def
      given_password_def given_phone_def given_sku_def given_quantity_def
      UserBuilder_chain_def UserBuilder_build_def UserBuilder_withPassword_def
      UserBuilder_withEmail_def new_UserBuilder_def demo_faker_def)

section \<open>US addresses\<close>

text \<open>
  Claim C5, as the code has it. \<open>buildUS()\<close> returns the country \<open>United States\<close> in every
  builder state in which no country has been overridden; after \<open>withCountry(c)\<close> it
  returns the country \<open>c\<close>, the override taking precedence as for every other field.
\<close>

theorem buildUS_country:
  "(opt_country b = None \<longrightarrow> country (fst (AddressBuilder_buildUS fk b g)) = ''United States'') \<and>
   (\<forall>c. opt_country b = Some c \<longrightarrow> country (fst (AddressBuilder_buildUS fk b g)) = c)"
  by (simp add: AddressBuilder_buildUS_def Let_def split_beta)

theorem buildUS_country_witness:
  "opt_country new_AddressBuilder = None \<and>
   country (fst (AddressBuilder_buildUS demo_faker new_AddressBuilder 0)) = ''United States'' \<and>
   opt_country (AddressBuilder_withStreet ''5 Elm St''
     (AddressBuilder_withCountry ''Mexico'' new_AddressBuilder)) = Some ''Mexico'' \<and>
   country (fst (AddressBuilder_buildUS demo_faker (AddressBuilder_withStreet ''5 Elm St''
     (AddressBuilder_withCountry ''Mexico'' new_AddressBuilder)) 0)) = ''Mexico''"
  using buildUS_country [of new_AddressBuilder demo_faker 0]
    buildUS_country [of "AddressBuilder_withStreet ''5 Elm St''
      (AddressBuilder_withCountry ''Mexico'' new_AddressBuilder)" demo_faker 0]
  by (simp add: new_AddressBuilder_def AddressBuilder_withCountry_def AddressBuilder_withStreet_def)

text \<open>
  The claim as first stated, for every builder state, fails:
  \<open>new AddressBuilder().withCountry('Canada').buildUS()\<close> has the country \<open>Canada\<close>.
\<close>

theorem buildUS_country_counterexample:
  "country (fst (AddressBuilder_buildUS demo_faker
      (AddressBuilder_withCountry ''Canada'' new_AddressBuilder) 0)) \<noteq> ''United States''"
  by (simp add: AddressBuilder_buildUS_def Let_def split_beta AddressBuilder_withCountry_def
      new_AddressBuilder_def)

section \<open>Reset\<close>

text \<open>
  Claim C6. \<open>AddressBuilder\<close>, \<open>ProductBuilder\<close> and \<open>OrderBuilder\<close> declare \<open>reset()\<close>, and for
  each of them, in any builder state, \<open>reset()\<close> followed by \<open>build()\<close> is the \<open>build()\<close> of a
  fresh builder from the same generator state; \<open>reset\<close> has no access to the generator.
  \<open>UserBuilder\<close> declares no \<open>reset\<close> at all.
\<close>

theorem reset_missing_on_UserBuilder:
  "''reset'' \<notin> set UserBuilder_methods \<and>
   ''reset'' \<in> set AddressBuilder_methods \<and>
   ''reset'' \<in> set ProductBuilder_methods \<and>
   ''reset'' \<in> set OrderBuilder_methods \<and>
   AddressBuilder_build fk (AddressBuilder_reset ab) g = AddressBuilder_build fk new_AddressBuilder g \<and>
   ProductBuilder_build fk (ProductBuilder_reset pb) g = ProductBuilder_build fk new_ProductBuilder g \<and>
   OrderBuilder_build fk (OrderBuilder_reset ob) g = OrderBuilder_build fk new_OrderBuilder g"
  by (simp add: UserBuilder_methods_def AddressBuilder_methods_def ProductBuilder_methods_def
      OrderBuilder_methods_def AddressBuilder_reset_def ProductBuilder_reset_def
      OrderBuilder_reset_def)

section \<open>The simple order\<close>

text \<open>
  Claim C7. \<open>new OrderBuilder().buildSimple()\<close> returns an order with exactly one item, of
  price 29.99 and quantity 1, and with total 29.99, for every generator and every state
  of it; 29.99 is the double of that literal, \<open>0 + 29.99 * 1\<close> being free of rounding.
\<close>

theorem buildSimple_fixed:
  "map item_price (items (fst (OrderBuilder_buildSimple fk new_OrderBuilder g))) =
     [js_literal 2999 100] \<and>
   map item_quantity (items (fst (OrderBuilder_buildSimple fk new_OrderBuilder g))) =
     [js_of_int 1] \<and>
   total (fst (OrderBuilder_buildSimple fk new_OrderBuilder g)) = js_literal 2999 100"
  by (simp add: OrderBuilder_buildSimple_def Let_def split_beta items_build total_build
      OrderBuilder_withItems_def subtotal_simple) (simp add: simple_items_def)

section \<open>The derived helpers\<close>

lemma is_digit_digit_char: "0 \<le> d \<Longrightarrow> d \<le> 9 \<Longrightarrow> is_digit (digit_char d)"
proof -
  assume "0 \<le> d" "d \<le> 9"
  then have "48 + nat d < 256" "48 \<le> 48 + nat d" "48 + nat d \<le> 57" by auto
  then show ?thesis by (simp add: is_digit_def digit_char_def Let_def)
qed

lemma phone_number_matches:
  "number_int_in_range fk \<Longrightarrow> matches_format fmt (fst (phone_number fk fmt g))"
proof (induction fmt arbitrary: g)
  case Nil
  show ?case by simp
next
  case (Cons c cs)
  from Cons.prems have d: "0 \<le> fst (number_int fk 0 9 g) \<and> fst (number_int fk 0 9 g) \<le> 9"
    by (simp add: number_int_in_range_def)
  show ?case
    using Cons.IH [OF Cons.prems] d
    by (simp add: split_beta Let_def is_digit_digit_char)
qed

lemma demo_phone: "fst (randomPhone demo_faker 7) = ''789-012-3456''"
  by code_simp

text \<open>
  Claim C8. In every generator state \<open>randomPhone()\<close> returns a string of the pattern
  \<open>###-###-####\<close>: three digits, a hyphen, three digits, a hyphen, four digits, given that
  \<open>faker.number.int\<close> stays within its bounds. \<open>randomEmail()\<close> is the library's
  \<open>internet.email()\<close>. Both are functions of the generator's state and of nothing else,
  which is their type here.
\<close>

theorem randomPhone_format:
  "number_int_in_range fk \<Longrightarrow>
     matches_format ''###-###-####'' (fst (randomPhone fk g)) \<and>
     randomEmail fk g = internet_email fk g"
  using phone_number_matches [of fk "''###-###-####''" g]
  by (simp only: randomPhone_def randomEmail_def simp_thms)

theorem randomPhone_format_witness:
  "number_int_in_range demo_faker \<and>
   matches_format ''###-###-####'' (fst (randomPhone demo_faker 7)) \<and>
   fst (randomPhone demo_faker 7) = ''789-012-3456''"
  using randomPhone_format [OF demo_faker_in_range, of 7] demo_faker_in_range demo_phone
  by simp

section \<open>Convenience resolvers\<close>

text \<open>
  Claim C9. \<open>buildSimple()\<close> leaves the builder with the fixed item list as its \<open>items\<close>
  override and every other field as it was, so that a later \<open>build()\<close> on that builder, in
  any generator state, returns that single item and the total 29.99; \<open>buildInStock()\<close> and
  \<open>buildOutOfStock()\<close> leave the builder with \<open>inStock\<close> overridden to true and to false and
  every other field as it was, so that a later \<open>build()\<close> has that stock status.
\<close>

theorem convenience_resolvers_persist:
  "fst (snd (OrderBuilder_buildSimple fk b g)) = b\<lparr>opt_items := Some simple_items\<rparr> \<and>
   items (fst (OrderBuilder_build fk (fst (snd (OrderBuilder_buildSimple fk b g))) g')) =
     simple_items \<and>
   map item_price simple_items = [js_literal 2999 100] \<and>
   total (fst (OrderBuilder_build fk (fst (snd (OrderBuilder_buildSimple fk b g))) g')) =
     js_literal 2999 100 \<and>
   fst (snd (ProductBuilder_buildInStock fk p g)) = p\<lparr>opt_inStock := Some True\<rparr> \<and>
   inStock (fst (ProductBuilder_build fk (fst (snd (ProductBuilder_buildInStock fk p g))) g'))
     = True \<and>
   fst (snd (ProductBuilder_buildOutOfStock fk p g)) = p\<lparr>opt_inStock := Some False\<rparr> \<and>
   inStock (fst (ProductBuilder_build fk (fst (snd (ProductBuilder_buildOutOfStock fk p g))) g'))
     = False"
  by (simp add: OrderBuilder_buildSimple_def ProductBuilder_buildInStock_def
      ProductBuilder_buildOutOfStock_def Let_def split_beta items_build total_build
      OrderBuilder_withItems_def ProductBuilder_withStockStatus_def subtotal_simple
      inStock_build) (simp add: simple_items_def)

section \<open>Defaults of the order builder\<close>

text \<open>
  Claim C10. For \<open>OrderBuilder.build()\<close>: a status that was not set is \<open>pending\<close>, a payment
  method that was not set is \<open>Credit Card\<close>, a billing address that was not set stays
  undefined, and when no items were set the order has one item, whose product is in stock
  and whose price is the value of a call of \<open>faker.commerce.price\<close> of its own, made after
  the quantity is drawn, while the product's price comes from an earlier call.
\<close>

theorem order_defaults:
  "(opt_status b = None \<longrightarrow> status (fst (OrderBuilder_build fk b g)) = Pending) \<and>
   (opt_paymentMethod b = None \<longrightarrow>
      paymentMethod (fst (OrderBuilder_build fk b g)) = ''Credit Card'') \<and>
   (opt_billingAddress b = None \<longrightarrow> billingAddress (fst (OrderBuilder_build fk b g)) = None) \<and>
   (opt_items b = None \<longrightarrow>
      (let g2 = snd (commerce_productDescription fk (snd (commerce_productName fk g)));
           g5 = snd (commerce_department fk
                  (snd (upper_alphanumeric fk 10
                     (snd (price_draw fk (js_of_int 10) (js_of_int 100) g2)))));
           g6 = snd (number_int fk 1 5 g5)
       in map (inStock \<circ> item_product) (items (fst (OrderBuilder_build fk b g))) = [True] \<and>
          map (price \<circ> item_product) (items (fst (OrderBuilder_build fk b g))) =
            [fst (price_draw fk (js_of_int 10) (js_of_int 100) g2)] \<and>
          map item_price (items (fst (OrderBuilder_build fk b g))) =
            [fst (price_draw fk (js_of_int 10) (js_of_int 100) g6)]))"
proof -
  have "status (fst (OrderBuilder_build fk b g)) = or_default (opt_status b) Pending"
    and "paymentMethod (fst (OrderBuilder_build fk b g)) =
           or_default (opt_paymentMethod b) ''Credit Card''"
    and "billingAddress (fst (OrderBuilder_build fk b g)) = opt_billingAddress b"
    by (simp_all add: OrderBuilder_build_def Let_def split_beta)
  moreover have "opt_items b = None \<Longrightarrow>
      items (fst (OrderBuilder_build fk b g)) = fst (default_items fk g)"
    by (simp add: items_build)
  ultimately show ?thesis
    by (simp add: default_items_facts Let_def)
qed

text \<open>On the concrete generator the two prices differ: the product's is 47, the item's
  12.5.\<close>

theorem order_defaults_witness:
  "opt_status new_OrderBuilder = None \<and> opt_paymentMethod new_OrderBuilder = None \<and>
   opt_billingAddress new_OrderBuilder = None \<and> opt_items new_OrderBuilder = None \<and>
   status (fst (OrderBuilder_build demo_faker new_OrderBuilder 0)) = Pending \<and>
   paymentMethod (fst (OrderBuilder_build demo_faker new_OrderBuilder 0)) = ''Credit Card'' \<and>
   billingAddress (fst (OrderBuilder_build demo_faker new_OrderBuilder 0)) = None \<and>
   map (inStock \<circ> item_product) (items (fst (OrderBuilder_build demo_faker new_OrderBuilder 0)))
     = [True] \<and>
   map (price \<circ> item_product) (items (fst (OrderBuilder_build demo_faker new_OrderBuilder 0)))
     = [js_of_int 47] \<and>
   map item_price (items (fst (OrderBuilder_build demo_faker new_OrderBuilder 0))) =
     [js_literal 125 10] \<and>
   js_of_int 47 \<noteq> js_literal 125 10"
proof -
  have "js_of_int 47 = Num 6614661952700416 (- 47)" "js_literal 125 10 = Num 7036874417766400 (- 49)"
    by (simp_all add: js_of_int_def js_literal_def round_core)
  then have "js_of_int 47 \<noteq> js_literal 125 10"
    by simp
  then show ?thesis
    using order_defaults [of new_OrderBuilder demo_faker 0]
    by (simp add: new_OrderBuilder_def demo_faker_def price_draw_def upper_alphanumeric_def
        Let_def)
qed

end
